theory Spec2Isabelle
  imports Complex_Main "HOL-Library.Word"
begin

unbundle bit_operations_syntax

section \<open>types.go: the half-precision bit pattern and its classification\<close>

text \<open>
  \<^verbatim>\<open>type Float16 uint16\<close>: a half value is its 16-bit pattern. A \<^verbatim>\<open>float32\<close> is
  modelled by its IEEE 754 binary32 bit pattern (what \<^verbatim>\<open>math.Float32bits\<close> returns), so
  \<^verbatim>\<open>math.Float32bits\<close> and \<^verbatim>\<open>math.Float32frombits\<close> are the identity.
\<close>

type_synonym Float16 = "16 word"
type_synonym float32 = "32 word"

abbreviation (input) SignMask :: "16 word" where "SignMask \<equiv> 0x8000"
abbreviation (input) ExponentMask :: "16 word" where "ExponentMask \<equiv> 0x7C00"
abbreviation (input) MantissaMask :: "16 word" where "MantissaMask \<equiv> 0x03FF"
abbreviation (input) MantissaLen :: nat where "MantissaLen \<equiv> 10"
abbreviation (input) ExponentBias :: int where "ExponentBias \<equiv> 15"
abbreviation (input) Float32ExponentBias :: int where "Float32ExponentBias \<equiv> 127"
abbreviation (input) Float32MantissaLen :: nat where "Float32MantissaLen \<equiv> 23"
abbreviation (input) ExponentZero :: "16 word" where "ExponentZero \<equiv> 0"
abbreviation (input) ExponentInfinity :: "16 word" where "ExponentInfinity \<equiv> 31"

abbreviation (input) PositiveZero :: Float16 where "PositiveZero \<equiv> 0x0000"
abbreviation (input) NegativeZero :: Float16 where "NegativeZero \<equiv> 0x8000"
abbreviation (input) PositiveInfinity :: Float16 where "PositiveInfinity \<equiv> 0x7C00"
abbreviation (input) NegativeInfinity :: Float16 where "NegativeInfinity \<equiv> 0xFC00"
abbreviation (input) QuietNaN :: Float16 where "QuietNaN \<equiv> 0x7E00"
abbreviation (input) NegativeQNaN :: Float16 where "NegativeQNaN \<equiv> 0xFE00"

text \<open>
  The mode types are Go integer types with named constants; the model has one constructor
  for each named constant, so the \<^verbatim>\<open>default\<close> branch of a \<^verbatim>\<open>switch\<close> over a mode has no
  counterpart.
\<close>

datatype ConversionMode = ModeIEEE | ModeStrict | ModeFast | ModeExact

datatype RoundingMode =
  RoundNearestEven | RoundNearestAway | RoundTowardZero | RoundTowardPositive | RoundTowardNegative

datatype ErrorCode =
  ErrOverflow | ErrUnderflow | ErrInvalidOperation | ErrDivisionByZero | ErrInexact | ErrNaN
  | ErrInfinity

text \<open>
  A failed call returns \<^verbatim>\<open>(0, &Float16Error{Op, Value, Msg, Code})\<close>; the model keeps the
  operation name, the message and the code (the \<^verbatim>\<open>Value\<close> field only echoes the input).
  A Go run-time panic (a shift by a negative count) is the second kind of failure.
\<close>

datatype error = Float16Error string string ErrorCode | RuntimePanic

fun error_code :: "error \<Rightarrow> ErrorCode option" where
  "error_code (Float16Error opn msg c) = Some c"
| "error_code RuntimePanic = None"

definition IsZero :: "Float16 \<Rightarrow> bool" where
  "IsZero f = ((f AND 0x7FFF) = 0)"

definition IsInf :: "Float16 \<Rightarrow> int \<Rightarrow> bool" where
  "IsInf f sign =
     (if (f AND 0x7FFF) \<noteq> PositiveInfinity then False
      else if sign = 0 then True
      else ((sign > 0) = ((f AND SignMask) = 0)))"

definition IsNaN :: "Float16 \<Rightarrow> bool" where
  "IsNaN f =
     (let expo = drop_bit MantissaLen (f AND ExponentMask);
          mant = f AND MantissaMask
      in expo = ExponentInfinity \<and> mant \<noteq> 0)"

definition IsFinite :: "Float16 \<Rightarrow> bool" where
  "IsFinite f = (let expo = drop_bit MantissaLen (f AND ExponentMask) in expo \<noteq> ExponentInfinity)"

definition IsNormal :: "Float16 \<Rightarrow> bool" where
  "IsNormal f =
     (let expo = drop_bit MantissaLen (f AND ExponentMask)
      in expo \<noteq> ExponentZero \<and> expo \<noteq> ExponentInfinity)"

definition IsSubnormal :: "Float16 \<Rightarrow> bool" where
  "IsSubnormal f =
     (let expo = drop_bit MantissaLen (f AND ExponentMask);
          mant = f AND MantissaMask
      in expo = ExponentZero \<and> mant \<noteq> 0)"

definition Signbit :: "Float16 \<Rightarrow> bool" where
  "Signbit f = ((f AND SignMask) \<noteq> 0)"

definition Abs :: "Float16 \<Rightarrow> Float16" where
  "Abs f = f AND 0x7FFF"

definition Neg :: "Float16 \<Rightarrow> Float16" where
  "Neg f = f XOR SignMask"

datatype FloatClass =
  ClassSignalingNaN | ClassQuietNaN | ClassNegativeInfinity | ClassNegativeNormal
  | ClassNegativeSubnormal | ClassNegativeZero | ClassPositiveZero | ClassPositiveSubnormal
  | ClassPositiveNormal | ClassPositiveInfinity

definition Class :: "Float16 \<Rightarrow> FloatClass" where
  "Class f =
     (if IsNaN f then
        (if (f AND 0x0200) = 0 then ClassSignalingNaN else ClassQuietNaN)
      else let sign = Signbit f in
        if IsInf f 0 then (if sign then ClassNegativeInfinity else ClassPositiveInfinity)
        else if IsZero f then (if sign then ClassNegativeZero else ClassPositiveZero)
        else if IsSubnormal f then
          (if sign then ClassNegativeSubnormal else ClassPositiveSubnormal)
        else if sign then ClassNegativeNormal else ClassPositiveNormal)"

definition extractComponents :: "Float16 \<Rightarrow> 16 word \<times> 16 word \<times> 16 word" where
  "extractComponents f =
     (drop_bit 15 (f AND SignMask), drop_bit MantissaLen (f AND ExponentMask), f AND MantissaMask)"

definition packComponents :: "16 word \<Rightarrow> 16 word \<Rightarrow> 16 word \<Rightarrow> Float16" where
  "packComponents sign expo mant =
     (push_bit 15 sign OR push_bit MantissaLen expo OR (mant AND MantissaMask))"

text \<open>
  \<^verbatim>\<open>bits.Len32\<close> and \<^verbatim>\<open>bits.LeadingZeros16\<close> of Go's standard library: the minimum number
  of bits that represent \<open>x\<close> (0 for 0), and the number of leading zero bits of a 16-bit
  value (16 for 0).
\<close>

fun len_upto :: "nat \<Rightarrow> nat \<Rightarrow> nat" where
  "len_upto 0 x = 0"
| "len_upto (Suc k) x = (if 2 ^ k \<le> x then Suc k else len_upto k x)"

definition Len32 :: "32 word \<Rightarrow> int" where
  "Len32 x = int (len_upto 32 (unat x))"

definition LeadingZeros16 :: "16 word \<Rightarrow> int" where
  "LeadingZeros16 x = 16 - int (len_upto 16 (unat x))"

definition leadingZeros10 :: "16 word \<Rightarrow> int" where
  "leadingZeros10 x = (if x = 0 then 10 else LeadingZeros16 (push_bit 6 x) - 6)"

section \<open>Go's float32 operators\<close>

text \<open>
  The bit-level reading of a binary32 pattern, as \<^verbatim>\<open>math.IsInf\<close>, \<^verbatim>\<open>math.IsNaN\<close>,
  \<^verbatim>\<open>math.Signbit\<close> and the comparison \<^verbatim>\<open>f32 == 0\<close> see it.
\<close>

definition f32_Signbit :: "float32 \<Rightarrow> bool" where
  "f32_Signbit x = (drop_bit 31 x \<noteq> 0)"

definition f32_exponent :: "float32 \<Rightarrow> nat" where
  "f32_exponent x = unat (drop_bit 23 x AND 0xFF)"

definition f32_mantissa :: "float32 \<Rightarrow> nat" where
  "f32_mantissa x = unat (x AND 0x7FFFFF)"

definition f32_IsNaN :: "float32 \<Rightarrow> bool" where
  "f32_IsNaN x = (f32_exponent x = 255 \<and> f32_mantissa x \<noteq> 0)"

definition f32_IsInf :: "float32 \<Rightarrow> bool" where
  "f32_IsInf x = (f32_exponent x = 255 \<and> f32_mantissa x = 0)"

definition f32_IsZero :: "float32 \<Rightarrow> bool" where
  "f32_IsZero x = (f32_exponent x = 0 \<and> f32_mantissa x = 0)"

text \<open>
  A finite binary32 is \<open>(-1)^sign * f32_significand * 2^f32_scale\<close>: the significand
  carries the implicit leading one of a normal value, and the scale of a subnormal is that
  of the smallest normal exponent.
\<close>

definition f32_significand :: "float32 \<Rightarrow> nat" where
  "f32_significand x = (if f32_exponent x = 0 then f32_mantissa x else 2 ^ 23 + f32_mantissa x)"

definition f32_scale :: "float32 \<Rightarrow> int" where
  "f32_scale x = int (max 1 (f32_exponent x)) - 150"

definition f32_inf :: "bool \<Rightarrow> float32" where
  "f32_inf s = (if s then 0xFF800000 else 0x7F800000)"

definition f32_zero :: "bool \<Rightarrow> float32" where
  "f32_zero s = (if s then 0x80000000 else 0)"

text \<open>
  The NaN an invalid operation (0/0, \<open>\<infinity>\<close>/\<open>\<infinity>\<close>, 0*\<open>\<infinity>\<close>, \<open>\<infinity>\<close>-\<open>\<infinity>\<close>) produces is the default NaN
  of the processor; the pattern below is that of amd64 (sign bit set). The package only
  looks at the sign of that NaN, and no operation of the package passes a NaN or an
  infinity to a float32 operator.
\<close>

definition f32_default_nan :: float32 where
  "f32_default_nan = 0xFFC00000"

fun bit_length :: "nat \<Rightarrow> nat" where
  "bit_length n = (if n = 0 then 0 else Suc (bit_length (n div 2)))"

declare bit_length.simps [simp del]

definition round_half_even :: "nat \<Rightarrow> nat \<Rightarrow> nat" where
  "round_half_even n d =
     (let q = n div d; r = n mod d
      in if d < 2 * r \<or> (2 * r = d \<and> odd q) then q + 1 else q)"

text \<open>
  \<open>f32_round s n d e\<close> is the binary32 nearest to \<open>(-1)^s * (n / d) * 2^e\<close> for positive
  \<open>n\<close> and \<open>d\<close>, ties to even: \<open>k\<close> is the exponent of the leading bit of the exact value,
  \<open>m\<close> the exact value rounded to a multiple of the unit in the last place of its binade
  (or of the subnormal binade), and adding \<open>m\<close> to the exponent field carries a rounded-up
  significand into the next exponent, up to infinity.
\<close>

definition f32_round :: "bool \<Rightarrow> nat \<Rightarrow> nat \<Rightarrow> int \<Rightarrow> float32" where
  "f32_round s n d e =
     (let p = (if 0 \<le> e then n * 2 ^ nat e else n);
          q = (if 0 \<le> e then d else d * 2 ^ nat (- e));
          l = int (bit_length p) - int (bit_length q);
          k = (if (if 0 \<le> l then q * 2 ^ nat l \<le> p else q \<le> p * 2 ^ nat (- l))
               then l else l - 1);
          u = max k (- 126) - 23;
          m = (if 0 \<le> u then round_half_even p (q * 2 ^ nat u)
               else round_half_even (p * 2 ^ nat (- u)) q);
          b = nat (u + 149) * 2 ^ 23 + m
      in if 0x7F800000 \<le> b then f32_inf s else f32_zero s OR word_of_nat b)"

definition f32_add :: "float32 \<Rightarrow> float32 \<Rightarrow> float32" where
  "f32_add a b =
     (if f32_IsNaN a then a OR 0x400000
      else if f32_IsNaN b then b OR 0x400000
      else if f32_IsInf a then
        (if f32_IsInf b \<and> f32_Signbit a \<noteq> f32_Signbit b then f32_default_nan else a)
      else if f32_IsInf b then b
      else
        let e = min (f32_scale a) (f32_scale b);
            x = int (f32_significand a * 2 ^ nat (f32_scale a - e));
            y = int (f32_significand b * 2 ^ nat (f32_scale b - e));
            t = (if f32_Signbit a then - x else x) + (if f32_Signbit b then - y else y)
        in if t = 0 then f32_zero (f32_Signbit a \<and> f32_Signbit b)
           else f32_round (t < 0) (nat \<bar>t\<bar>) 1 e)"

definition f32_mul :: "float32 \<Rightarrow> float32 \<Rightarrow> float32" where
  "f32_mul a b =
     (if f32_IsNaN a then a OR 0x400000
      else if f32_IsNaN b then b OR 0x400000
      else
        let s = (f32_Signbit a \<noteq> f32_Signbit b) in
        if f32_IsInf a then (if f32_IsZero b then f32_default_nan else f32_inf s)
        else if f32_IsInf b then (if f32_IsZero a then f32_default_nan else f32_inf s)
        else if f32_IsZero a \<or> f32_IsZero b then f32_zero s
        else f32_round s (f32_significand a * f32_significand b) 1 (f32_scale a + f32_scale b))"

definition f32_div :: "float32 \<Rightarrow> float32 \<Rightarrow> float32" where
  "f32_div a b =
     (if f32_IsNaN a then a OR 0x400000
      else if f32_IsNaN b then b OR 0x400000
      else
        let s = (f32_Signbit a \<noteq> f32_Signbit b) in
        if f32_IsInf a then (if f32_IsInf b then f32_default_nan else f32_inf s)
        else if f32_IsInf b then f32_zero s
        else if f32_IsZero b then (if f32_IsZero a then f32_default_nan else f32_inf s)
        else if f32_IsZero a then f32_zero s
        else f32_round s (f32_significand a) (f32_significand b) (f32_scale a - f32_scale b))"

section \<open>convert.go: widening and narrowing\<close>

definition shouldRound :: "32 word \<Rightarrow> int \<Rightarrow> RoundingMode \<Rightarrow> bool" where
  "shouldRound mantissa shift mode =
     (if shift \<le> 0 then False
      else
        let discardedBits = mantissa AND (push_bit (nat shift) 1 - 1);
            guardBit = drop_bit (nat (shift - 1)) mantissa AND 1
        in case mode of
             RoundNearestEven \<Rightarrow>
               (if guardBit = 0 then False
                else
                  let remainingBits = discardedBits AND (push_bit (nat (shift - 1)) 1 - 1)
                  in if remainingBits \<noteq> 0 then True
                     else let resultLSB = drop_bit (nat shift) mantissa AND 1
                          in resultLSB = 1)
           | RoundNearestAway \<Rightarrow> guardBit = 1
           | RoundTowardZero \<Rightarrow> False
           | RoundTowardPositive \<Rightarrow> discardedBits \<noteq> 0
           | RoundTowardNegative \<Rightarrow> False)"

text \<open>
  The branch \<^verbatim>\<open>if exp16 <= 0\<close> of \<^verbatim>\<open>ToFloat16WithMode\<close> (convert.go, lines 195 to 305),
  given the sign, the exponent field, the mantissa field and the rebiased exponent. A shift
  by a negative count panics in Go.
\<close>

definition underflowBranch ::
  "32 word \<Rightarrow> int \<Rightarrow> 32 word \<Rightarrow> int \<Rightarrow> ConversionMode \<Rightarrow> RoundingMode \<Rightarrow> error + Float16" where
  "underflowBranch sign32 exp32 mant32_0 exp16 convMode roundMode =
     (let shift = 1 - exp16;
          mant32_1 = (if exp32 \<noteq> 0 then mant32_0 OR 0x800000 else mant32_0);
          totalShift = (Float32ExponentBias - ExponentBias + 1 - 1) + shift
      in
      if 24 \<le> totalShift then
        (if convMode = ModeStrict \<or> convMode = ModeExact then
           Inl (Float16Error ''convert'' ''underflow: value too small for float16'' ErrUnderflow)
         else if sign32 \<noteq> 0 then Inr NegativeZero else Inr PositiveZero)
      else
        let extraBits = (if 22 < totalShift then 0 else if 21 < totalShift then 1 else (2::int));
            mant32 = (if mant32_1 \<noteq> 0 \<and> exp32 \<noteq> 0 then mant32_1 OR 0x800000 else mant32_1)
        in
        if mant32_1 \<noteq> 0 \<and> totalShift - extraBits < 0 then Inl RuntimePanic
        else
          let mant16_0 = (if mant32_1 \<noteq> 0
                          then (ucast (drop_bit (nat (totalShift - extraBits)) mant32) :: 16 word)
                          else 0);
              roundBit = (if extraBits < totalShift
                          then drop_bit (nat (totalShift - extraBits - 1)) mant32 AND 1
                          else 0);
              stickyBit = (if extraBits + 1 < totalShift then
                             (let stickyMask = push_bit (nat (totalShift - extraBits - 1)) 1 - 1
                              in if (mant32 AND stickyMask) \<noteq> 0 then 1 else 0)
                           else (0 :: 32 word));
              mant16_1 = (if shouldRound (ucast mant16_0) (uint (roundBit OR stickyBit)) roundMode
                          then (if 0x3FF < mant16_0 + 1 then 0x200 else mant16_0 + 1)
                          else mant16_0)
          in
          if 0x400 \<le> mant16_1 then
            (let mant16_2 = drop_bit 1 mant16_1 in
             if mant16_2 < 0x400 then Inr (packComponents (ucast sign32) 1 mant16_2)
             else Inr (packComponents (ucast sign32) 2 (drop_bit 1 mant16_2)))
          else Inr (packComponents (ucast sign32) 0 mant16_1))"

definition ToFloat16WithMode :: "float32 \<Rightarrow> ConversionMode \<Rightarrow> RoundingMode \<Rightarrow> error + Float16" where
  "ToFloat16WithMode f32 convMode roundMode =
     (if f32_IsZero f32 then
        (if (f32 AND push_bit 31 1) \<noteq> 0 then Inr NegativeZero else Inr PositiveZero)
      else if f32_IsInf f32 then
        (if convMode = ModeStrict then
           Inl (Float16Error ''convert'' ''infinity not allowed in strict mode'' ErrInfinity)
         else if \<not> f32_Signbit f32 then Inr PositiveInfinity else Inr NegativeInfinity)
      else if f32_IsNaN f32 then
        (if convMode = ModeStrict then
           Inl (Float16Error ''convert'' ''NaN not allowed in strict mode'' ErrNaN)
         else if f32_Signbit f32 then Inr NegativeQNaN else Inr QuietNaN)
      else
        let bits = f32;
            sign32 = drop_bit 31 bits;
            exp32 = uint (drop_bit 23 bits AND 0xFF);
            mant32 = bits AND 0x7FFFFF;
            isSubnormal = (exp32 = 0)
        in
        if isSubnormal \<and> mant32 = 0 then
          (if sign32 \<noteq> 0 then Inr NegativeZero else Inr PositiveZero)
        else
          let exp16 = exp32 - Float32ExponentBias + ExponentBias in
          if 31 \<le> exp16 then
            (if convMode = ModeStrict \<or> convMode = ModeExact then
               Inl (Float16Error ''convert'' ''overflow: value too large for float16'' ErrOverflow)
             else if sign32 \<noteq> 0 then Inr NegativeInfinity else Inr PositiveInfinity)
          else if exp16 \<le> 0 then
            underflowBranch sign32 exp32 mant32 exp16 convMode roundMode
          else
            let mant16 = drop_bit (Float32MantissaLen - MantissaLen) mant32 in
            if shouldRound mant32 (int Float32MantissaLen - int MantissaLen) roundMode then
              (if push_bit MantissaLen 1 \<le> mant16 + 1 then
                 (if 31 \<le> exp16 + 1 then
                    (if convMode = ModeStrict \<or> convMode = ModeExact then
                       Inl (Float16Error ''convert'' ''overflow after rounding'' ErrOverflow)
                     else if sign32 \<noteq> 0 then Inr NegativeInfinity else Inr PositiveInfinity)
                  else Inr (packComponents (ucast sign32) (word_of_int (exp16 + 1)) 0))
               else Inr (packComponents (ucast sign32) (word_of_int exp16) (ucast (mant16 + 1))))
            else Inr (packComponents (ucast sign32) (word_of_int exp16) (ucast mant16)))"

definition ToFloat32 :: "Float16 \<Rightarrow> float32" where
  "ToFloat32 f =
     (if IsZero f then (if Signbit f then 0x80000000 else 0)
      else if IsNaN f then
        (let sign = (if Signbit f then 0x80000000 else 0);
             payload = (ucast (f AND MantissaMask) :: 32 word)
         in sign OR 0x7FC00000 OR push_bit (Float32MantissaLen - MantissaLen) payload)
      else if IsInf f 0 then (if Signbit f then 0xFF800000 else 0x7F800000)
      else
        case extractComponents f of (sign, exp16, mant16) \<Rightarrow>
          if exp16 = 0 then
            (if mant16 = 0 then (if sign \<noteq> 0 then 0x80000000 else 0)
             else
               let leadingZeros = leadingZeros10 mant16 in
               if leadingZeros < 0 \<or> 9 < leadingZeros then
                 (if sign \<noteq> 0 then 0x80000000 else 0)
               else
                 let shift = leadingZeros + 1;
                     mant16' = push_bit (nat shift) mant16 AND 0x3FF;
                     exp32 = Float32ExponentBias - 15 + shift
                 in
                 if exp32 \<le> 0 \<or> 255 \<le> exp32 then
                   (if 255 \<le> exp32 then (if sign \<noteq> 0 then 0xFF800000 else 0x7F800000)
                    else if sign \<noteq> 0 then 0x80000000 else 0)
                 else
                   let mant32 = push_bit (Float32MantissaLen - MantissaLen) (ucast mant16' :: 32 word)
                   in push_bit 31 (ucast sign) OR push_bit 23 (word_of_int exp32) OR mant32)
          else
            let exp32 = uint exp16 - ExponentBias + Float32ExponentBias;
                mant32 = push_bit (Float32MantissaLen - MantissaLen) (ucast mant16 :: 32 word)
            in push_bit 31 (ucast sign) OR push_bit 23 (word_of_int exp32) OR mant32)"

section \<open>arithmetic.go: addition, multiplication, division\<close>

datatype ArithmeticMode = ModeIEEEArithmetic | ModeFastArithmetic | ModeExactArithmetic

text \<open>
  The package variables \<^verbatim>\<open>DefaultArithmeticMode\<close> and \<^verbatim>\<open>DefaultRounding\<close>, read by
  \<^verbatim>\<open>Add\<close>, \<^verbatim>\<open>Mul\<close> and \<^verbatim>\<open>Div\<close>; \<^verbatim>\<open>Configure\<close> can replace the first.
\<close>

record Globals =
  DefaultArithmeticMode :: ArithmeticMode
  DefaultRounding :: RoundingMode

definition initial_globals :: Globals where
  "initial_globals =
     \<lparr>DefaultArithmeticMode = ModeIEEEArithmetic, DefaultRounding = RoundNearestEven\<rparr>"

text \<open>
  The operand preparation that \<^verbatim>\<open>addIEEE754\<close> writes out once for each operand: a
  subnormal is shifted left by \<^verbatim>\<open>leadingZeros10(mant) + 1\<close> and gets the exponent
  \<^verbatim>\<open>uint16(1 - shift)\<close>, a normal value gets its implicit leading one. The result is the
  pair of the exponent and the mantissa.
\<close>

definition normalizeOperand :: "16 word \<Rightarrow> 16 word \<Rightarrow> error + (16 word \<times> 16 word)" where
  "normalizeOperand expX mantX =
     (if expX = 0 \<and> mantX \<noteq> 0 then
        (let shift = leadingZeros10 mantX in
         if shift + 1 < 0 then Inl RuntimePanic
         else Inr (word_of_int (1 - shift), push_bit (nat (shift + 1)) mantX AND MantissaMask))
      else if expX \<noteq> 0 then Inr (expX, mantX OR push_bit MantissaLen 1)
      else Inr (expX, mantX))"

text \<open>
  \<^verbatim>\<open>addIEEE754\<close> after its exchange of the components: \<open>A\<close> is the operand of the larger
  magnitude, and \<open>a\<close> is the first argument of \<^verbatim>\<open>addIEEE754\<close> itself, which the early
  return for an exponent difference of 24 or more hands back.
\<close>

definition addOrdered ::
  "Float16 \<Rightarrow> 16 word \<Rightarrow> 16 word \<Rightarrow> 16 word \<Rightarrow> 16 word \<Rightarrow> 16 word \<Rightarrow> 16 word
   \<Rightarrow> error + Float16" where
  "addOrdered a signA expA1 mantA1 signB expB1 mantB1 =
     (case normalizeOperand expA1 mantA1 of Inl e \<Rightarrow> Inl e | Inr (expA, mantA) \<Rightarrow>
      case normalizeOperand expB1 mantB1 of Inl e \<Rightarrow> Inl e | Inr (expB, mantB2) \<Rightarrow>
      let expDiff = uint expA - uint expB in
      if 0 < expDiff \<and> 24 \<le> expDiff then Inr a
      else
        let mantB = (if 0 < expDiff then drop_bit (nat expDiff) mantB2 else mantB2);
            resultSign = (if signA = signB then signA
                          else if mantB \<le> mantA then signA else signB);
            resultMant0 = (if signA = signB then (ucast mantA :: 32 word) + ucast mantB
                           else if mantB \<le> mantA then ucast mantA - ucast mantB
                           else ucast mantB - ucast mantA);
            resultExp0 = uint expA
        in
        if resultMant0 = 0 then Inr PositiveZero
        else
          let normalized =
                (if push_bit (MantissaLen + 1) 1 \<le> resultMant0
                 then (drop_bit 1 resultMant0, resultExp0 + 1)
                 else
                   let leadingZeros = 31 - Len32 resultMant0;
                       shift = leadingZeros - (31 - int MantissaLen - 1)
                   in if 0 < leadingZeros \<and> 0 < shift
                      then (push_bit (nat shift) resultMant0, resultExp0 - shift)
                      else (resultMant0, resultExp0));
              resultMant1 = fst normalized;
              resultExp1 = snd normalized
          in
          if 31 \<le> resultExp1 then
            (if resultSign \<noteq> 0 then Inr NegativeInfinity else Inr PositiveInfinity)
          else if resultExp1 \<le> 0 \<and> 24 \<le> 1 - resultExp1 then
            (if resultSign \<noteq> 0 then Inr NegativeZero else Inr PositiveZero)
          else
            let resultMant2 = (if resultExp1 \<le> 0
                               then drop_bit (nat (1 - resultExp1)) resultMant1
                               else resultMant1);
                resultExp2 = (if resultExp1 \<le> 0 then 0 else resultExp1);
                resultMant3 = (if 0 < resultExp2 then resultMant2 AND 0x03FF else resultMant2)
            in Inr (packComponents resultSign (word_of_int resultExp2) (ucast resultMant3)))"

definition addIEEE754 :: "Float16 \<Rightarrow> Float16 \<Rightarrow> RoundingMode \<Rightarrow> error + Float16" where
  "addIEEE754 a b rounding =
     (case extractComponents a of (signA, expA, mantA) \<Rightarrow>
      case extractComponents b of (signB, expB, mantB) \<Rightarrow>
      if expA < expB \<or> (expA = expB \<and> mantA < mantB)
      then addOrdered a signB expB mantB signA expA mantA
      else addOrdered a signA expA mantA signB expB mantB)"

text \<open>
  Whether \<^const>\<open>addIEEE754\<close> takes that early return on \<open>a\<close> and \<open>b\<close>: the exponents of the
  prepared operands are 24 or more apart.
\<close>

definition exponentsFarApart :: "16 word \<Rightarrow> 16 word \<Rightarrow> 16 word \<Rightarrow> 16 word \<Rightarrow> bool" where
  "exponentsFarApart expA1 mantA1 expB1 mantB1 =
     (case normalizeOperand expA1 mantA1 of Inl e \<Rightarrow> False | Inr (expA, mantA) \<Rightarrow>
      case normalizeOperand expB1 mantB1 of Inl e \<Rightarrow> False | Inr (expB, mantB2) \<Rightarrow>
      24 \<le> uint expA - uint expB)"

definition takesEarlyReturn :: "Float16 \<Rightarrow> Float16 \<Rightarrow> bool" where
  "takesEarlyReturn a b =
     (case extractComponents a of (signA, expA, mantA) \<Rightarrow>
      case extractComponents b of (signB, expB, mantB) \<Rightarrow>
      if expA < expB \<or> (expA = expB \<and> mantA < mantB)
      then exponentsFarApart expB mantB expA mantA
      else exponentsFarApart expA mantA expB mantB)"

text \<open>
  Whether the preparation of an operand in \<^const>\<open>addIEEE754\<close> panics: the operand is a
  subnormal and the shift count \<^verbatim>\<open>leadingZeros10(mant) + 1\<close> is negative.
\<close>

definition preparationPanics :: "Float16 \<Rightarrow> bool" where
  "preparationPanics v =
     (case extractComponents v of (sign, expo, mant) \<Rightarrow>
        normalizeOperand expo mant = Inl RuntimePanic)"

definition mulIEEE754 :: "Float16 \<Rightarrow> Float16 \<Rightarrow> RoundingMode \<Rightarrow> error + Float16" where
  "mulIEEE754 a b rounding =
     ToFloat16WithMode (f32_mul (ToFloat32 a) (ToFloat32 b)) ModeIEEE rounding"

definition divIEEE754 :: "Float16 \<Rightarrow> Float16 \<Rightarrow> RoundingMode \<Rightarrow> error + Float16" where
  "divIEEE754 a b rounding =
     ToFloat16WithMode (f32_div (ToFloat32 a) (ToFloat32 b)) ModeExact rounding"

definition AddWithMode ::
  "Float16 \<Rightarrow> Float16 \<Rightarrow> ArithmeticMode \<Rightarrow> RoundingMode \<Rightarrow> error + Float16" where
  "AddWithMode a b mode rounding =
     (if IsZero a then Inr b
      else if IsZero b then Inr a
      else if IsNaN a \<or> IsNaN b then
        (if mode = ModeExactArithmetic
         then Inl (Float16Error ''add'' ''NaN operand in exact mode'' ErrNaN)
         else Inr QuietNaN)
      else if IsInf a 0 \<or> IsInf b 0 then
        (if IsInf a 1 \<and> IsInf b (- 1) then
           (if mode = ModeExactArithmetic
            then Inl (Float16Error ''add'' ''infinity - infinity is undefined'' ErrInvalidOperation)
            else Inr QuietNaN)
         else if IsInf a (- 1) \<and> IsInf b 1 then
           (if mode = ModeExactArithmetic
            then Inl (Float16Error ''add'' ''infinity - infinity is undefined'' ErrInvalidOperation)
            else Inr QuietNaN)
         else if IsInf a 0 then Inr a
         else Inr b)
      else if mode = ModeFastArithmetic then
        ToFloat16WithMode (f32_add (ToFloat32 a) (ToFloat32 b)) ModeIEEE rounding
      else addIEEE754 a b rounding)"

definition MulWithMode ::
  "Float16 \<Rightarrow> Float16 \<Rightarrow> ArithmeticMode \<Rightarrow> RoundingMode \<Rightarrow> error + Float16" where
  "MulWithMode a b mode rounding =
     (let aIsZero = IsZero a; bIsInf = IsInf b 0 in
      if (aIsZero \<and> bIsInf) \<or> (IsInf a 0 \<and> IsZero b) then
        (if mode = ModeExactArithmetic
         then Inl (Float16Error ''mul'' ''zero times infinity is undefined'' ErrInvalidOperation)
         else Inr QuietNaN)
      else if aIsZero \<or> IsZero b then
        (if Signbit a \<noteq> Signbit b then Inr NegativeZero else Inr PositiveZero)
      else if IsNaN a \<or> IsNaN b then
        (if mode = ModeExactArithmetic
         then Inl (Float16Error ''mul'' ''NaN operand in exact mode'' ErrNaN)
         else Inr QuietNaN)
      else if IsInf a 0 \<or> IsInf b 0 then
        (if (IsInf a 0 \<and> IsZero b) \<or> (IsZero a \<and> IsInf b 0) then
           (if mode = ModeExactArithmetic
            then Inl (Float16Error ''mul'' ''zero times infinity is undefined'' ErrInvalidOperation)
            else Inr QuietNaN)
         else if Signbit a \<noteq> Signbit b then Inr NegativeInfinity
         else Inr PositiveInfinity)
      else if mode = ModeFastArithmetic then
        ToFloat16WithMode (f32_mul (ToFloat32 a) (ToFloat32 b)) ModeIEEE rounding
      else mulIEEE754 a b rounding)"

definition DivWithMode ::
  "Float16 \<Rightarrow> Float16 \<Rightarrow> ArithmeticMode \<Rightarrow> RoundingMode \<Rightarrow> error + Float16" where
  "DivWithMode a b mode rounding =
     (if IsZero b then
        (if IsZero a then
           (if mode = ModeExactArithmetic
            then Inl (Float16Error ''div'' ''zero divided by zero is undefined'' ErrInvalidOperation)
            else Inr QuietNaN)
         else if mode = ModeExactArithmetic
         then Inl (Float16Error ''div'' ''division by zero'' ErrDivisionByZero)
         else if Signbit a \<noteq> Signbit b then Inr NegativeInfinity
         else Inr PositiveInfinity)
      else if IsZero a then
        (if Signbit a \<noteq> Signbit b then Inr NegativeZero else Inr PositiveZero)
      else if IsInf a 0 \<or> IsInf b 0 then
        (if IsInf a 0 \<and> IsInf b 0 then
           (if mode = ModeExactArithmetic
            then Inl (Float16Error ''div'' ''infinity divided by infinity is undefined''
                        ErrInvalidOperation)
            else Inr QuietNaN)
         else if IsInf a 0 then
           (if Signbit a \<noteq> Signbit b then Inr NegativeInfinity else Inr PositiveInfinity)
         else if Signbit a \<noteq> Signbit b then Inr NegativeZero
         else Inr PositiveZero)
      else if IsNaN a \<or> IsNaN b then
        (if mode = ModeExactArithmetic
         then Inl (Float16Error ''div'' ''NaN operand in exact mode'' ErrNaN)
         else Inr QuietNaN)
      else if IsInf a 0 \<and> IsInf b 0 then
        (if mode = ModeExactArithmetic
         then Inl (Float16Error ''div'' ''infinity divided by infinity is undefined''
                     ErrInvalidOperation)
         else Inr QuietNaN)
      else if IsInf a 0 then
        (if Signbit a \<noteq> Signbit b then Inr NegativeInfinity else Inr PositiveInfinity)
      else if IsInf b 0 then
        (if Signbit a \<noteq> Signbit b then Inr NegativeZero else Inr PositiveZero)
      else if mode = ModeFastArithmetic then
        ToFloat16WithMode (f32_div (ToFloat32 a) (ToFloat32 b)) ModeIEEE rounding
      else divIEEE754 a b rounding)"

text \<open>
  \<^verbatim>\<open>result, _ := AddWithMode(...); return result\<close>: the wrappers drop the error and
  return the value that came with it, which is 0 in every error return of the package.
  A panic is not an error value and passes through.
\<close>

definition dropError :: "error + Float16 \<Rightarrow> error + Float16" where
  "dropError r =
     (case r of
        Inr v \<Rightarrow> Inr v
      | Inl (Float16Error opn msg c) \<Rightarrow> Inr 0
      | Inl RuntimePanic \<Rightarrow> Inl RuntimePanic)"

definition Add :: "Globals \<Rightarrow> Float16 \<Rightarrow> Float16 \<Rightarrow> error + Float16" where
  "Add g a b = dropError (AddWithMode a b (DefaultArithmeticMode g) (DefaultRounding g))"

definition Mul :: "Globals \<Rightarrow> Float16 \<Rightarrow> Float16 \<Rightarrow> error + Float16" where
  "Mul g a b = dropError (MulWithMode a b (DefaultArithmeticMode g) (DefaultRounding g))"

definition Div :: "Globals \<Rightarrow> Float16 \<Rightarrow> Float16 \<Rightarrow> error + Float16" where
  "Div g a b = dropError (DivWithMode a b (DefaultArithmeticMode g) (DefaultRounding g))"

section \<open>The ten classes by the exponent/mantissa table\<close>

text \<open>
  The table of the data model: exponent 0 with mantissa 0 is a signed zero, exponent 0 with
  another mantissa a subnormal, exponent 1..30 a normal value, exponent 31 with mantissa 0
  a signed infinity, exponent 31 with another mantissa a NaN, quiet when the top mantissa
  bit is set and signaling otherwise. The arguments are the three fields of
  \<^const>\<open>extractComponents\<close>.
\<close>

definition class_of_fields :: "16 word \<Rightarrow> 16 word \<Rightarrow> 16 word \<Rightarrow> FloatClass" where
  "class_of_fields sign expo mant =
     (if expo = 31 then
        (if mant = 0 then (if sign = 0 then ClassPositiveInfinity else ClassNegativeInfinity)
         else if bit mant 9 then ClassQuietNaN else ClassSignalingNaN)
      else if expo = 0 then
        (if mant = 0 then (if sign = 0 then ClassPositiveZero else ClassNegativeZero)
         else if sign = 0 then ClassPositiveSubnormal else ClassNegativeSubnormal)
      else if sign = 0 then ClassPositiveNormal else ClassNegativeNormal)"

section \<open>The values that the bit patterns denote\<close>

text \<open>
  The numeric reading of the data model, used to compare a conversion with the value it
  should keep: a subnormal half is \<open>sign * (mantissa / 1024) * 2^-14\<close> (a zero when the
  mantissa is 0) and a normal half is \<open>sign * (1 + mantissa / 1024) * 2^(exponent - 15)\<close>.
  Both functions are meant for finite patterns only.
\<close>

definition pow2 :: "int \<Rightarrow> rat" where
  "pow2 e = (if 0 \<le> e then 2 ^ nat e else 1 / 2 ^ nat (- e))"

definition half_value_spec :: "Float16 \<Rightarrow> rat" where
  "half_value_spec v =
     (case extractComponents v of (sign, expo, mant) \<Rightarrow>
        (if sign = 0 then 1 else - 1) *
        (if expo = 0 then (of_nat (unat mant) / 1024) * pow2 (- 14)
         else (1 + of_nat (unat mant) / 1024) * pow2 (uint expo - 15)))"

definition f32_value :: "float32 \<Rightarrow> rat" where
  "f32_value x =
     (if f32_Signbit x then - 1 else 1) * of_nat (f32_significand x) * pow2 (f32_scale x)"

section \<open>Groups of bits of a pattern\<close>

text \<open>
  The exponent field is all ones, the exponent field is not zero, and the mantissa field is
  not zero, written over the single bits of the pattern.
\<close>

definition exp_bits_all :: "Float16 \<Rightarrow> bool" where
  "exp_bits_all f = (bit f 10 \<and> bit f 11 \<and> bit f 12 \<and> bit f 13 \<and> bit f 14)"

definition exp_bits_some :: "Float16 \<Rightarrow> bool" where
  "exp_bits_some f = (bit f 10 \<or> bit f 11 \<or> bit f 12 \<or> bit f 13 \<or> bit f 14)"

definition mant_bits_some :: "Float16 \<Rightarrow> bool" where
  "mant_bits_some f =
     (bit f 0 \<or> bit f 1 \<or> bit f 2 \<or> bit f 3 \<or> bit f 4 \<or> bit f 5 \<or> bit f 6 \<or> bit f 7
      \<or> bit f 8 \<or> bit f 9)"

section \<open>Bit-level facts about the masks\<close>

lemma bit_int_8000: "bit (0x8000 :: int) n \<longleftrightarrow> n = 15"
proof -
  have "bit (push_bit 15 (1::int)) n \<longleftrightarrow> n = 15"
    unfolding bit_push_bit_iff bit_1_iff by auto
  then show ?thesis by simp
qed

lemma bit_int_7FFF: "bit (0x7FFF :: int) n \<longleftrightarrow> n < 15"
proof -
  have "bit (mask 15 :: int) n \<longleftrightarrow> n < 15"
    unfolding bit_mask_iff by auto
  then show ?thesis by (simp add: mask_eq_exp_minus_1)
qed

lemma bit_int_03FF: "bit (0x3FF :: int) n \<longleftrightarrow> n < 10"
proof -
  have "bit (mask 10 :: int) n \<longleftrightarrow> n < 10"
    unfolding bit_mask_iff by auto
  then show ?thesis by (simp add: mask_eq_exp_minus_1)
qed

lemma bit_int_7C00: "bit (0x7C00 :: int) n \<longleftrightarrow> 10 \<le> n \<and> n < 15"
proof -
  have "bit (push_bit 10 (mask 5) :: int) n \<longleftrightarrow> 10 \<le> n \<and> n < 15"
    unfolding bit_push_bit_iff bit_mask_iff by auto
  then show ?thesis by (simp add: mask_eq_exp_minus_1)
qed

lemma bit_int_0200: "bit (0x200 :: int) n \<longleftrightarrow> n = 9"
proof -
  have "bit (push_bit 9 (1::int)) n \<longleftrightarrow> n = 9"
    unfolding bit_push_bit_iff bit_1_iff by auto
  then show ?thesis by simp
qed

lemma bit_int_31: "bit (31 :: int) n \<longleftrightarrow> n < 5"
proof -
  have "bit (mask 5 :: int) n \<longleftrightarrow> n < 5"
    unfolding bit_mask_iff by auto
  then show ?thesis by (simp add: mask_eq_exp_minus_1)
qed

lemmas mask_bits =
  bit_int_8000 bit_int_7FFF bit_int_03FF bit_int_7C00 bit_int_0200 bit_int_31


lemma lt16_cases: "n < (16::nat) \<longleftrightarrow>
   n = 15 \<or> n = 14 \<or> n = 13 \<or> n = 12 \<or> n = 11 \<or> n = 10 \<or> n = 9 \<or> n = 8 \<or>
   n = 7 \<or> n = 6 \<or> n = 5 \<or> n = 4 \<or> n = 3 \<or> n = 2 \<or> n = 1 \<or> n = 0"
  by arith

lemma all_lt16: "(\<forall>n<16. P n) \<longleftrightarrow>
   P (0::nat) \<and> P 1 \<and> P 2 \<and> P 3 \<and> P 4 \<and> P 5 \<and> P 6 \<and> P 7 \<and>
   P 8 \<and> P 9 \<and> P 10 \<and> P 11 \<and> P 12 \<and> P 13 \<and> P 14 \<and> P 15"
  unfolding lt16_cases by blast

text \<open>Two 16-bit words are equal when their sixteen bits are.\<close>

lemma w16_eq_bits: "(x :: 16 word) = y \<longleftrightarrow>
   bit x 0 = bit y 0 \<and> bit x 1 = bit y 1 \<and> bit x 2 = bit y 2 \<and> bit x 3 = bit y 3 \<and>
   bit x 4 = bit y 4 \<and> bit x 5 = bit y 5 \<and> bit x 6 = bit y 6 \<and> bit x 7 = bit y 7 \<and>
   bit x 8 = bit y 8 \<and> bit x 9 = bit y 9 \<and> bit x 10 = bit y 10 \<and> bit x 11 = bit y 11 \<and>
   bit x 12 = bit y 12 \<and> bit x 13 = bit y 13 \<and> bit x 14 = bit y 14 \<and> bit x 15 = bit y 15"
proof -
  have "x = y \<longleftrightarrow> (\<forall>n<16. bit x n = bit y n)"
    by (auto intro: bit_word_eqI)
  then show ?thesis unfolding all_lt16 .
qed

section \<open>The predicates of types.go in terms of the sixteen bits\<close>

lemma exp_bits_all_some: "exp_bits_all f \<Longrightarrow> exp_bits_some f"
  by (simp add: exp_bits_all_def exp_bits_some_def)

lemma Signbit_bit: "Signbit f \<longleftrightarrow> bit f 15"
  unfolding Signbit_def by (simp add: w16_eq_bits bit_and_iff mask_bits)

lemma sign_field_bit: "drop_bit 15 (f AND SignMask) = 0 \<longleftrightarrow> \<not> bit f 15"
  by (simp add: w16_eq_bits bit_and_iff bit_drop_bit_eq mask_bits)

lemma quiet_bit: "(f AND 0x0200) = 0 \<longleftrightarrow> \<not> bit f 9" for f :: "16 word"
  by (simp add: w16_eq_bits bit_and_iff mask_bits)

lemma mant_field_bit9: "bit (f AND MantissaMask) 9 \<longleftrightarrow> bit f 9"
  by (simp add: bit_and_iff mask_bits)

lemma mant_field_zero: "(f AND MantissaMask) = 0 \<longleftrightarrow> \<not> mant_bits_some f"
  by (simp add: mant_bits_some_def w16_eq_bits bit_and_iff mask_bits)

lemma exp_field_zero: "drop_bit MantissaLen (f AND ExponentMask) = 0 \<longleftrightarrow> \<not> exp_bits_some f"
  by (simp add: exp_bits_some_def w16_eq_bits bit_and_iff bit_drop_bit_eq mask_bits)

lemma exp_field_inf: "drop_bit MantissaLen (f AND ExponentMask) = 31 \<longleftrightarrow> exp_bits_all f"
  by (simp add: exp_bits_all_def w16_eq_bits bit_and_iff bit_drop_bit_eq mask_bits)

lemma IsZero_bits: "IsZero f \<longleftrightarrow> \<not> exp_bits_some f \<and> \<not> mant_bits_some f"
  unfolding IsZero_def exp_bits_some_def mant_bits_some_def
  by (simp add: w16_eq_bits bit_and_iff mask_bits) blast

lemma abs_inf_bits: "(f AND 0x7FFF) = PositiveInfinity \<longleftrightarrow> exp_bits_all f \<and> \<not> mant_bits_some f"
  unfolding exp_bits_all_def mant_bits_some_def
  by (simp add: w16_eq_bits bit_and_iff mask_bits) blast

lemma IsInf0_bits: "IsInf f 0 \<longleftrightarrow> exp_bits_all f \<and> \<not> mant_bits_some f"
  unfolding IsInf_def abs_inf_bits by simp

lemma IsNaN_bits: "IsNaN f \<longleftrightarrow> exp_bits_all f \<and> mant_bits_some f"
  unfolding IsNaN_def Let_def exp_field_inf mant_field_zero by simp

lemma IsSubnormal_bits: "IsSubnormal f \<longleftrightarrow> \<not> exp_bits_some f \<and> mant_bits_some f"
  unfolding IsSubnormal_def Let_def exp_field_zero mant_field_zero by simp

lemma IsNormal_bits: "IsNormal f \<longleftrightarrow> exp_bits_some f \<and> \<not> exp_bits_all f"
  unfolding IsNormal_def Let_def exp_field_zero exp_field_inf by simp

lemma IsFinite_bits: "IsFinite f \<longleftrightarrow> \<not> exp_bits_all f"
  unfolding IsFinite_def Let_def exp_field_inf by simp

lemmas predicate_bits =
  IsZero_bits IsInf0_bits IsNaN_bits IsSubnormal_bits IsNormal_bits IsFinite_bits

lemma NaN_not_Zero: "IsNaN f \<Longrightarrow> \<not> IsZero f"
  unfolding predicate_bits by simp

lemma NaN_not_Inf: "IsNaN f \<Longrightarrow> \<not> IsInf f 0"
  unfolding predicate_bits by simp

lemma Zero_not_Inf: "IsZero f \<Longrightarrow> \<not> IsInf f 0"
  unfolding predicate_bits using exp_bits_all_some [of f] by blast

lemma Zero_not_NaN: "IsZero f \<Longrightarrow> \<not> IsNaN f"
  unfolding predicate_bits by simp

lemma Finite_not_Inf: "IsFinite f \<Longrightarrow> \<not> IsInf f 0"
  unfolding predicate_bits by simp

lemma Finite_not_NaN: "IsFinite f \<Longrightarrow> \<not> IsNaN f"
  unfolding predicate_bits by simp

lemma Class_table: "Class f = (case extractComponents f of (s, e, m) \<Rightarrow> class_of_fields s e m)"
proof -
  show ?thesis
    unfolding Class_def extractComponents_def class_of_fields_def prod.case Let_def
      sign_field_bit quiet_bit mant_field_bit9 exp_field_inf exp_field_zero mant_field_zero
      Signbit_bit predicate_bits
    using exp_bits_all_some [of f] by auto
qed

section \<open>Evaluating the model on concrete patterns\<close>

lemma len_upto_numeral:
  "len_upto (numeral n) x =
     (if 2 ^ pred_numeral n \<le> x then numeral n else len_upto (pred_numeral n) x)"
  by (simp add: numeral_eq_Suc)

lemma bit_length_0: "bit_length 0 = 0"
  by (simp add: bit_length.simps)

lemma bit_length_1: "bit_length (Suc 0) = Suc 0"
  by (subst bit_length.simps) (simp add: bit_length_0)

lemma bit_length_numeral: "bit_length (numeral n) = Suc (bit_length (numeral n div 2))"
  by (subst bit_length.simps) simp

lemmas bit_length_eval = bit_length_0 bit_length_1 bit_length_numeral

lemmas half_eval =
  IsZero_def IsNaN_def IsInf_def IsFinite_def IsSubnormal_def IsNormal_def Signbit_def
  extractComponents_def packComponents_def leadingZeros10_def LeadingZeros16_def Len32_def
  len_upto_numeral Let_def word_le_nat_alt word_less_nat_alt

lemmas f32_eval =
  f32_IsZero_def f32_IsNaN_def f32_IsInf_def f32_Signbit_def f32_exponent_def f32_mantissa_def
  f32_significand_def f32_scale_def f32_inf_def f32_zero_def

lemmas f32_arith_eval =
  f32_add_def f32_mul_def f32_div_def f32_round_def round_half_even_def bit_length_eval

text \<open>The widening of four patterns: the smallest and the largest subnormal, the largest
  finite value 65504 and the smallest normal value \<open>2^-14\<close>.\<close>

lemma ToFloat32_0001: "ToFloat32 0x0001 = 0x3A020000"
  by (simp add: ToFloat32_def half_eval)

lemma ToFloat32_03FF: "ToFloat32 0x03FF = 0"
  by (simp add: ToFloat32_def half_eval)

lemma ToFloat32_7BFF: "ToFloat32 0x7BFF = 0x477FE000"
  by (simp add: ToFloat32_def half_eval)

lemma ToFloat32_0400: "ToFloat32 0x0400 = 0x38800000"
  by (simp add: ToFloat32_def half_eval)

text \<open>\<open>65504 / 2^-14 = 65504 * 2^14\<close> and \<open>65504 * 65504 = 4290774016\<close>, both exact in
  binary32.\<close>

lemma f32_div_max_by_min: "f32_div 0x477FE000 0x38800000 = 0x4E7FE000"
  by (simp add: f32_eval f32_arith_eval Let_def)

lemma f32_mul_max_by_max: "f32_mul 0x477FE000 0x477FE000 = 0x4F7FC004"
  by (simp add: f32_eval f32_arith_eval Let_def)

section \<open>Classification\<close>

text \<open>
  Claim C8. For each of the 65536 patterns, \<^const>\<open>Class\<close> returns the class that the
  exponent/mantissa table gives to the three fields of the pattern (one of the ten
  constructors of \<^typ>\<open>FloatClass\<close>), and each predicate agrees with it: \<^const>\<open>IsNaN\<close> holds
  exactly for the two NaN classes, \<open>IsInf f 0\<close> for the two infinities, \<^const>\<open>IsZero\<close> for
  the two zeros, \<^const>\<open>IsSubnormal\<close> for the two subnormal classes, \<^const>\<open>IsNormal\<close> for
  the two normal classes, and \<^const>\<open>IsFinite\<close> exactly when the class is neither a NaN nor
  an infinity.
\<close>

theorem Class_agrees_with_table_and_predicates:
  "Class f = (case extractComponents f of (s, e, m) \<Rightarrow> class_of_fields s e m)
   \<and> (IsNaN f \<longleftrightarrow> Class f \<in> {ClassSignalingNaN, ClassQuietNaN})
   \<and> (IsInf f 0 \<longleftrightarrow> Class f \<in> {ClassPositiveInfinity, ClassNegativeInfinity})
   \<and> (IsZero f \<longleftrightarrow> Class f \<in> {ClassPositiveZero, ClassNegativeZero})
   \<and> (IsSubnormal f \<longleftrightarrow> Class f \<in> {ClassPositiveSubnormal, ClassNegativeSubnormal})
   \<and> (IsNormal f \<longleftrightarrow> Class f \<in> {ClassPositiveNormal, ClassNegativeNormal})
   \<and> (IsFinite f \<longleftrightarrow>
        Class f \<notin> {ClassSignalingNaN, ClassQuietNaN, ClassPositiveInfinity,
                     ClassNegativeInfinity})"
proof -
  have nan: "IsNaN f \<longleftrightarrow> Class f \<in> {ClassSignalingNaN, ClassQuietNaN}"
    by (simp add: Class_def Let_def)
  have inf: "IsInf f 0 \<longleftrightarrow> Class f \<in> {ClassPositiveInfinity, ClassNegativeInfinity}"
    using NaN_not_Inf [of f] by (simp add: Class_def Let_def)
  have zero: "IsZero f \<longleftrightarrow> Class f \<in> {ClassPositiveZero, ClassNegativeZero}"
    using NaN_not_Zero [of f] Zero_not_Inf [of f] by (simp add: Class_def Let_def)
  have sub_excl: "IsSubnormal f \<Longrightarrow> \<not> IsNaN f \<and> \<not> IsInf f 0 \<and> \<not> IsZero f"
    unfolding predicate_bits using exp_bits_all_some [of f] by blast
  have sub: "IsSubnormal f \<longleftrightarrow> Class f \<in> {ClassPositiveSubnormal, ClassNegativeSubnormal}"
    using sub_excl by (simp add: Class_def Let_def)
  have norm_iff: "IsNormal f \<longleftrightarrow> \<not> IsNaN f \<and> \<not> IsInf f 0 \<and> \<not> IsZero f \<and> \<not> IsSubnormal f"
    unfolding predicate_bits by blast
  have norm: "IsNormal f \<longleftrightarrow> Class f \<in> {ClassPositiveNormal, ClassNegativeNormal}"
    unfolding norm_iff by (simp add: Class_def Let_def)
  have fin_iff: "IsFinite f \<longleftrightarrow> \<not> IsNaN f \<and> \<not> IsInf f 0"
    unfolding predicate_bits by blast
  have fin: "IsFinite f \<longleftrightarrow>
      Class f \<notin> {ClassSignalingNaN, ClassQuietNaN, ClassPositiveInfinity, ClassNegativeInfinity}"
    unfolding fin_iff by (simp add: Class_def Let_def)
  from Class_table nan inf zero sub norm fin show ?thesis by blast
qed

section \<open>Negation\<close>

text \<open>
  Claim C10. \<^const>\<open>Neg\<close> only flips the sign bit: for every pattern \<open>f\<close>, NaN, infinity and
  zero included, negating twice gives \<open>f\<close> back bit for bit, the sign bit of \<open>Neg f\<close> differs
  from that of \<open>f\<close>, and \<open>Neg f\<close> has the same absolute value as \<open>f\<close>.
\<close>

theorem Neg_involution_sign_only:
  "Neg (Neg f) = f \<and> Signbit (Neg f) \<noteq> Signbit f \<and> Abs (Neg f) = Abs f"
proof -
  have twice: "Neg (Neg f) = f"
    by (simp add: Neg_def w16_eq_bits bit_xor_iff mask_bits)
  have sign: "Signbit (Neg f) \<noteq> Signbit f"
    unfolding Signbit_bit Neg_def by (simp add: bit_xor_iff mask_bits)
  have magnitude: "Abs (Neg f) = Abs f"
    unfolding Abs_def Neg_def by (simp add: w16_eq_bits bit_and_iff bit_xor_iff mask_bits)
  from twice sign magnitude show ?thesis by simp
qed

section \<open>Fields of the patterns\<close>

lemma pack_extract:
  "packComponents (drop_bit 15 (v AND SignMask)) (drop_bit 10 (v AND ExponentMask))
     (v AND MantissaMask) = v"
  unfolding packComponents_def
  by (simp add: w16_eq_bits bit_and_iff bit_or_iff bit_drop_bit_eq bit_push_bit_iff mask_bits)

lemma extractComponents_inj:
  assumes "extractComponents a = extractComponents b"
  shows "a = b"
proof -
  have "a = packComponents (drop_bit 15 (a AND SignMask)) (drop_bit 10 (a AND ExponentMask))
              (a AND MantissaMask)"
    by (simp only: pack_extract)
  also have "\<dots> = packComponents (drop_bit 15 (b AND SignMask))
              (drop_bit 10 (b AND ExponentMask)) (b AND MantissaMask)"
    using assms unfolding extractComponents_def by (simp only: prod.inject)
  also have "\<dots> = b" by (simp only: pack_extract)
  finally show ?thesis .
qed

lemma bit_bound: "x < 2 ^ k \<Longrightarrow> bit x n \<Longrightarrow> n < k" for x :: "'a::len word"
proof -
  assume small: "x < 2 ^ k" and set: "bit x n"
  from small have "take_bit k x = x" by (simp add: take_bit_eq_mask less_mask_eq)
  then have "bit (take_bit k x) n" using set by simp
  then show "n < k" by (simp add: bit_take_bit_iff)
qed

text \<open>A binary32 assembled from a sign, an exponent field and a ten-bit mantissa gives the
  three fields back, and its mantissa has no bit below the ten.\<close>

lemma fields32:
  fixes S X M :: "32 word"
  assumes bS: "\<And>n. bit S n \<Longrightarrow> n < 1" and bX: "\<And>n. bit X n \<Longrightarrow> n < 8"
    and bM: "\<And>n. bit M n \<Longrightarrow> n < 10"
  defines "w \<equiv> push_bit 31 S OR push_bit 23 X OR push_bit 13 M"
  shows "drop_bit 31 w = S" and "drop_bit 23 w AND 0xFF = X"
    and "w AND 0x7FFFFF = push_bit 13 M"
    and "drop_bit 13 (push_bit 13 M) = M" and "drop_bit 12 (push_bit 13 M) AND 1 = 0"
proof -
  have m8: "(0xFF :: 32 word) = mask 8" by (simp add: mask_eq_exp_minus_1)
  have m23: "(0x7FFFFF :: 32 word) = mask 23" by (simp add: mask_eq_exp_minus_1)
  show "drop_bit 31 w = S"
    unfolding w_def
    by (rule bit_word_eqI)
      (auto simp add: bit_or_iff bit_drop_bit_eq bit_push_bit_iff dest: bS bX bM)
  show "drop_bit 23 w AND 0xFF = X"
    unfolding w_def m8
    by (rule bit_word_eqI)
      (auto simp add: bit_or_iff bit_and_iff bit_mask_iff bit_drop_bit_eq bit_push_bit_iff
        dest: bS bX bM)
  show "w AND 0x7FFFFF = push_bit 13 M"
    unfolding w_def m23
    by (rule bit_word_eqI)
      (auto simp add: bit_or_iff bit_and_iff bit_mask_iff bit_drop_bit_eq bit_push_bit_iff
        dest: bS bX bM)
  show "drop_bit 13 (push_bit 13 M) = M"
    by (rule bit_word_eqI) (auto simp add: bit_drop_bit_eq bit_push_bit_iff dest: bM)
  show "drop_bit 12 (push_bit 13 M) AND 1 = 0"
    by (rule bit_word_eqI)
      (auto simp add: bit_and_iff bit_1_iff bit_drop_bit_eq bit_push_bit_iff dest: bM)
qed

lemma exp_field_le: "uint (drop_bit 10 (v AND ExponentMask)) \<le> 31"
proof -
  have "v AND ExponentMask \<le> ExponentMask" by (rule word_and_le1)
  then have "uint (v AND ExponentMask) \<le> 31744" by (simp add: word_le_def)
  then have "uint (v AND ExponentMask) div 1024 \<le> 31" by simp
  then show ?thesis by (simp add: drop_bit_eq_div uint_div)
qed

lemma sign_field_bits: "bit (ucast (drop_bit 15 (v AND SignMask)) :: 32 word) n \<Longrightarrow> n < 1"
  for v :: "16 word"
  by (auto simp add: bit_ucast_iff bit_drop_bit_eq bit_and_iff bit_1_iff mask_bits)

lemma mant_field_bits: "bit (ucast (x AND MantissaMask) :: 32 word) n \<Longrightarrow> n < 10"
  for x :: "16 word"
  by (auto simp add: bit_ucast_iff bit_and_iff mask_bits)

lemma ucast_back: "(ucast (ucast x :: 32 word) :: 16 word) = x"
  by (rule bit_word_eqI) (auto simp add: bit_ucast_iff)

lemma exp_field_pack:
  assumes "x < 32"
  shows "drop_bit 10 (packComponents sg x mt AND ExponentMask) = x"
proof -
  have bx: "\<And>n. bit x n \<Longrightarrow> n < 5" using bit_bound [of x 5] assms by simp
  have em: "ExponentMask = push_bit 10 (mask 5)" by (simp add: mask_eq_exp_minus_1)
  have mm: "MantissaMask = mask 10" by (simp add: mask_eq_exp_minus_1)
  show ?thesis
    unfolding packComponents_def em mm
    by (rule bit_word_eqI)
      (auto simp add: bit_or_iff bit_and_iff bit_mask_iff bit_drop_bit_eq bit_push_bit_iff
        dest: bx)
qed

lemma not_special:
  assumes "IsNormal v \<or> IsSubnormal v"
  shows "\<not> IsZero v" and "\<not> IsNaN v" and "\<not> IsInf v 0"
  using assms unfolding predicate_bits using exp_bits_all_some [of v] by auto

lemma zero_patterns: "IsZero v \<longleftrightarrow> v = 0x0000 \<or> v = 0x8000"
  unfolding IsZero_bits exp_bits_some_def mant_bits_some_def
  by (simp add: w16_eq_bits mask_bits) blast

lemma inf_patterns: "IsInf v 0 \<longleftrightarrow> v = 0x7C00 \<or> v = 0xFC00"
  unfolding IsInf0_bits exp_bits_all_def mant_bits_some_def
  by (simp add: w16_eq_bits mask_bits) blast

lemma sign_mask_zero: "(v AND SignMask) = 0 \<longleftrightarrow> \<not> bit v 15"
  by (simp add: w16_eq_bits bit_and_iff mask_bits)

lemma pos_inf_pattern: "IsInf v 1 \<longleftrightarrow> v = 0x7C00"
  unfolding IsInf_def abs_inf_bits sign_mask_zero exp_bits_all_def mant_bits_some_def
  by (simp add: w16_eq_bits mask_bits) blast

lemma neg_inf_pattern: "IsInf v (- 1) \<longleftrightarrow> v = 0xFC00"
  unfolding IsInf_def abs_inf_bits sign_mask_zero exp_bits_all_def mant_bits_some_def
  by (simp add: w16_eq_bits mask_bits) blast

section \<open>Narrowing what widening produces\<close>

text \<open>Narrowing is exact on a binary32 whose exponent is in the normal range of the half
  format and whose mantissa has only its top ten bits.\<close>

lemma narrow_exact:
  fixes S M :: "32 word" and k :: int
  assumes bS: "\<And>n. bit S n \<Longrightarrow> n < 1" and bM: "\<And>n. bit M n \<Longrightarrow> n < 10"
    and k1: "1 \<le> k" and k30: "k \<le> 30"
  shows "ToFloat16WithMode
           (push_bit 31 S OR push_bit 23 (word_of_int (k + 112)) OR push_bit 13 M)
           ModeIEEE RoundNearestEven
         = Inr (packComponents (ucast S) (word_of_int k) (ucast M))"
proof -
  define X where "X = (word_of_int (k + 112) :: 32 word)"
  define w where "w = push_bit 31 S OR push_bit 23 X OR push_bit 13 M"
  have "uint X = (k + 112) mod 2 ^ 32"
    unfolding X_def uint_word_of_int by simp
  also have "\<dots> = k + 112"
    using k1 k30 by simp
  finally have uX: "uint X = k + 112" .
  have unX: "unat X = nat (k + 112)"
    using uX by (simp add: unat_eq_nat_uint)
  have Xlt: "X < 256" using uX k30 by (simp add: word_less_def)
  have bX: "\<And>n. bit X n \<Longrightarrow> n < 8" using bit_bound [of X 8] Xlt by simp
  have f1: "drop_bit 31 w = S" unfolding w_def by (rule fields32(1) [OF bS bX bM])
  have f2: "drop_bit 23 w AND 0xFF = X" unfolding w_def by (rule fields32(2) [OF bS bX bM])
  have f3: "w AND 0x7FFFFF = push_bit 13 M" unfolding w_def by (rule fields32(3) [OF bS bX bM])
  have f4: "drop_bit 13 (push_bit 13 M) = M" by (rule fields32(4) [OF bS bX bM])
  have f5: "drop_bit 12 (push_bit 13 M) AND 1 = 0" by (rule fields32(5) [OF bS bX bM])
  have fexp: "f32_exponent w = nat (k + 112)"
    by (simp add: f32_exponent_def f2 unX)
  have fexp0: "f32_exponent w \<noteq> 0" and fexp255: "f32_exponent w \<noteq> 255"
    unfolding fexp using k1 k30 by simp_all
  have noround: "\<not> shouldRound (push_bit 13 M) 13 RoundNearestEven"
    by (simp add: shouldRound_def Let_def f5)
  have "ToFloat16WithMode w ModeIEEE RoundNearestEven
      = Inr (packComponents (ucast S) (word_of_int k) (ucast M))"
    using k1 k30 noround
    by (simp add: ToFloat16WithMode_def f32_IsZero_def f32_IsInf_def f32_IsNaN_def fexp0 fexp255
        Let_def f1 f2 f3 f4 uX)
  then show ?thesis unfolding w_def X_def .
qed

lemma narrow_zero:
  "ToFloat16WithMode 0 ModeIEEE RoundNearestEven = Inr 0x0000"
  "ToFloat16WithMode 0x80000000 ModeIEEE RoundNearestEven = Inr 0x8000"
  by (simp_all add: ToFloat16WithMode_def f32_eval)

lemma roundtrip_zero_inf:
  "ToFloat16WithMode (ToFloat32 0x0000) ModeIEEE RoundNearestEven = Inr 0x0000"
  "ToFloat16WithMode (ToFloat32 0x8000) ModeIEEE RoundNearestEven = Inr 0x8000"
  "ToFloat16WithMode (ToFloat32 0x7C00) ModeIEEE RoundNearestEven = Inr 0x7C00"
  "ToFloat16WithMode (ToFloat32 0xFC00) ModeIEEE RoundNearestEven = Inr 0xFC00"
  by (simp_all add: ToFloat32_def ToFloat16WithMode_def half_eval f32_eval)

lemma roundtrip_normal:
  assumes "IsNormal v"
  shows "ToFloat16WithMode (ToFloat32 v) ModeIEEE RoundNearestEven = Inr v"
proof -
  define s where "s = drop_bit 15 (v AND SignMask)"
  define e where "e = drop_bit 10 (v AND ExponentMask)"
  define m where "m = v AND MantissaMask"
  from assms have e0: "e \<noteq> 0" and e31: "e \<noteq> 31"
    by (simp_all add: IsNormal_def e_def Let_def)
  have ule: "uint e \<le> 31" unfolding e_def by (rule exp_field_le)
  have "uint e \<noteq> 0" using e0 by (simp add: uint_0_iff)
  then have upos: "1 \<le> uint e" using uint_ge_0 [of e] by linarith
  have une: "uint e \<noteq> 31"
  proof
    assume "uint e = 31"
    then have "word_of_int (uint e) = (word_of_int 31 :: 16 word)" by simp
    then have "e = 31" by simp
    with e31 show False by simp
  qed
  from ule une have u30: "uint e \<le> 30" by simp
  have bS: "\<And>n. bit (ucast s :: 32 word) n \<Longrightarrow> n < 1"
    unfolding s_def by (rule sign_field_bits)
  have bM: "\<And>n. bit (ucast m :: 32 word) n \<Longrightarrow> n < 10"
    unfolding m_def by (rule mant_field_bits)
  have widen: "ToFloat32 v
      = push_bit 31 (ucast s) OR push_bit 23 (word_of_int (uint e + 112))
          OR push_bit 13 (ucast m)"
    using e0 not_special [of v] assms
    by (simp add: ToFloat32_def extractComponents_def Let_def s_def e_def m_def add.commute)
  have repack: "packComponents (ucast (ucast s :: 32 word)) (word_of_int (uint e))
      (ucast (ucast m :: 32 word)) = v"
    unfolding ucast_back word_of_int_uint s_def e_def m_def by (rule pack_extract)
  have "ToFloat16WithMode (ToFloat32 v) ModeIEEE RoundNearestEven
      = Inr (packComponents (ucast (ucast s :: 32 word)) (word_of_int (uint e))
               (ucast (ucast m :: 32 word)))"
    unfolding widen by (rule narrow_exact [OF bS bM upos u30])
  then show ?thesis unfolding repack .
qed

text \<open>
  No subnormal survives the round trip: \<^const>\<open>ToFloat32\<close> gives a signed zero when
  \<^const>\<open>leadingZeros10\<close> is out of range, and otherwise a binary32 with the exponent field
  \<open>112 + leadingZeros10 + 1\<close>, which narrows to a half with a nonzero exponent field.
\<close>

lemma roundtrip_subnormal_fails:
  assumes sub: "IsSubnormal v"
  shows "ToFloat16WithMode (ToFloat32 v) ModeIEEE RoundNearestEven \<noteq> Inr v"
proof -
  define s where "s = drop_bit 15 (v AND SignMask)"
  define m where "m = v AND MantissaMask"
  define lz where "lz = leadingZeros10 m"
  from sub have e0: "drop_bit 10 (v AND ExponentMask) = 0" and m0: "m \<noteq> 0"
    by (simp_all add: IsSubnormal_def m_def Let_def)
  have nz: "\<not> IsZero v" using not_special [of v] sub by simp
  then have v0: "v \<noteq> 0x0000" and v8: "v \<noteq> 0x8000" by (auto simp add: IsZero_def)
  show ?thesis
  proof (cases "lz < 0 \<or> 9 < lz")
    case True
    then have "ToFloat32 v = (if s \<noteq> 0 then 0x80000000 else 0)"
      using e0 m0 not_special [of v] sub
      by (simp add: ToFloat32_def extractComponents_def Let_def s_def m_def lz_def)
    then show ?thesis using v0 v8 by (simp add: narrow_zero)
  next
    case False
    then have k1: "1 \<le> lz + 1" and k30: "lz + 1 \<le> 30" by simp_all
    define m' where "m' = push_bit (nat (lz + 1)) m AND MantissaMask"
    have bS: "\<And>n. bit (ucast s :: 32 word) n \<Longrightarrow> n < 1"
      unfolding s_def by (rule sign_field_bits)
    have bM: "\<And>n. bit (ucast m' :: 32 word) n \<Longrightarrow> n < 10"
      unfolding m'_def by (rule mant_field_bits)
    have widen: "ToFloat32 v
        = push_bit 31 (ucast s) OR push_bit 23 (word_of_int (lz + 1 + 112))
            OR push_bit 13 (ucast m')"
      using False e0 m0 not_special [of v] sub
      by (simp add: ToFloat32_def extractComponents_def Let_def s_def m_def lz_def m'_def
          add.commute)
    have res: "ToFloat16WithMode (ToFloat32 v) ModeIEEE RoundNearestEven
        = Inr (packComponents (ucast (ucast s :: 32 word)) (word_of_int (lz + 1))
                 (ucast (ucast m' :: 32 word)))"
      unfolding widen by (rule narrow_exact [OF bS bM k1 k30])
    have "uint (word_of_int (lz + 1) :: 16 word) = (lz + 1) mod 2 ^ 16"
      unfolding uint_word_of_int by simp
    also have "\<dots> = lz + 1" using False by simp
    finally have ux: "uint (word_of_int (lz + 1) :: 16 word) = lz + 1" .
    have xlt: "(word_of_int (lz + 1) :: 16 word) < 32"
      using ux False by (simp add: word_less_def)
    have xne: "(word_of_int (lz + 1) :: 16 word) \<noteq> 0"
      using ux False by (metis not_one_le_zero k1 uint_0_eq)
    have "packComponents (ucast (ucast s :: 32 word)) (word_of_int (lz + 1))
                 (ucast (ucast m' :: 32 word)) \<noteq> v"
    proof
      assume eq: "packComponents (ucast (ucast s :: 32 word)) (word_of_int (lz + 1))
                 (ucast (ucast m' :: 32 word)) = v"
      have "drop_bit 10 (v AND ExponentMask) = word_of_int (lz + 1)"
        unfolding eq [symmetric] by (rule exp_field_pack [OF xlt])
      with e0 xne show False by simp
    qed
    then show ?thesis unfolding res by simp
  qed
qed

text \<open>
  Below the normal range \<^const>\<open>ToFloat16WithMode\<close> never builds a subnormal: the total shift
  is \<open>112 + (1 - exp16)\<close>, at least 113, so the test \<open>totalShift >= 24\<close> always holds and
  the value is flushed to a signed zero, or is an underflow error in Strict and Exact mode.
\<close>

lemma underflowBranch_flushes:
  assumes "exp16 \<le> 0"
  shows "underflowBranch sign32 exp32 mant32 exp16 convMode roundMode =
           (if convMode = ModeStrict \<or> convMode = ModeExact then
              Inl (Float16Error ''convert'' ''underflow: value too small for float16''
                     ErrUnderflow)
            else if sign32 \<noteq> 0 then Inr NegativeZero else Inr PositiveZero)"
  using assms by (simp add: underflowBranch_def Let_def)

section \<open>The two orders of an addition\<close>

text \<open>Off its early return, \<^const>\<open>addOrdered\<close> does not look at the argument it would hand
  back.\<close>

lemma addOrdered_first_arg:
  assumes "\<not> exponentsFarApart eA mA eB mB"
  shows "addOrdered a sA eA mA sB eB mB = addOrdered b sA eA mA sB eB mB"
proof (cases "normalizeOperand eA mA")
  case (Inl e)
  then show ?thesis by (simp add: addOrdered_def)
next
  case A: (Inr pa)
  show ?thesis
  proof (cases "normalizeOperand eB mB")
    case (Inl e)
    then show ?thesis using A by (simp add: addOrdered_def split: prod.splits)
  next
    case B: (Inr pb)
    obtain xa ya where pa: "pa = (xa, ya)" by (cases pa)
    obtain xb yb where pb: "pb = (xb, yb)" by (cases pb)
    from assms have far: "\<not> 24 \<le> uint xa - uint xb"
      by (simp add: exponentsFarApart_def A B pa pb)
    show ?thesis
      unfolding addOrdered_def A B pa pb
      using far by (simp only: sum.case prod.case Let_def simp_thms if_False)
  qed
qed

text \<open>Two operands of the same magnitude and of different signs cancel to +0 (or panic in
  the preparation of the operands), whichever comes first.\<close>

lemma addOrdered_cancel:
  assumes "sA \<noteq> sB"
  shows "addOrdered a sA e m sB e m
         = (case normalizeOperand e m of Inl err \<Rightarrow> Inl err | Inr p \<Rightarrow> Inr PositiveZero)"
  using assms by (simp add: addOrdered_def Let_def split: sum.splits prod.splits)

lemma addIEEE754_commute:
  assumes far: "\<not> takesEarlyReturn a b"
  shows "addIEEE754 a b r = addIEEE754 b a r"
proof -
  obtain sA eA mA where ca: "extractComponents a = (sA, eA, mA)"
    by (cases "extractComponents a")
  obtain sB eB mB where cb: "extractComponents b = (sB, eB, mB)"
    by (cases "extractComponents b")
  consider (less) "eA < eB \<or> (eA = eB \<and> mA < mB)"
    | (greater) "eB < eA \<or> (eB = eA \<and> mB < mA)"
    | (equal) "eA = eB" "mA = mB"
    by (metis linorder_neqE)
  then show ?thesis
  proof cases
    case less
    then have ng: "\<not> (eB < eA \<or> (eB = eA \<and> mB < mA))" by auto
    have "takesEarlyReturn a b = exponentsFarApart eB mB eA mA"
      unfolding takesEarlyReturn_def ca cb prod.case using less by (rule if_P)
    with far have "\<not> exponentsFarApart eB mB eA mA" by simp
    then have mid: "addOrdered a sB eB mB sA eA mA = addOrdered b sB eB mB sA eA mA"
      by (rule addOrdered_first_arg)
    have lhs: "addIEEE754 a b r = addOrdered a sB eB mB sA eA mA"
      unfolding addIEEE754_def ca cb prod.case using less by (rule if_P)
    have rhs: "addIEEE754 b a r = addOrdered b sB eB mB sA eA mA"
      unfolding addIEEE754_def ca cb prod.case using ng by (rule if_not_P)
    show ?thesis unfolding lhs rhs by (rule mid)
  next
    case greater
    then have nl: "\<not> (eA < eB \<or> (eA = eB \<and> mA < mB))" by auto
    have "takesEarlyReturn a b = exponentsFarApart eA mA eB mB"
      unfolding takesEarlyReturn_def ca cb prod.case using nl by (rule if_not_P)
    with far have "\<not> exponentsFarApart eA mA eB mB" by simp
    then have mid: "addOrdered a sA eA mA sB eB mB = addOrdered b sA eA mA sB eB mB"
      by (rule addOrdered_first_arg)
    have lhs: "addIEEE754 a b r = addOrdered a sA eA mA sB eB mB"
      unfolding addIEEE754_def ca cb prod.case using nl by (rule if_not_P)
    have rhs: "addIEEE754 b a r = addOrdered b sA eA mA sB eB mB"
      unfolding addIEEE754_def ca cb prod.case using greater by (rule if_P)
    show ?thesis unfolding lhs rhs by (rule mid)
  next
    case equal
    show ?thesis
    proof (cases "sA = sB")
      case True
      with equal ca cb have "a = b" by (intro extractComponents_inj) simp
      then show ?thesis by simp
    next
      case False
      then have "sB \<noteq> sA" by simp
      with False equal show ?thesis
        by (simp add: addIEEE754_def ca cb addOrdered_cancel)
    qed
  qed
qed

lemma AddWithMode_commute:
  assumes na: "\<not> IsNaN a" and nb: "\<not> IsNaN b"
    and zeros: "\<not> (IsZero a \<and> IsZero b \<and> Signbit a \<noteq> Signbit b)"
    and far: "IsZero a \<or> IsZero b \<or> IsInf a 0 \<or> IsInf b 0 \<or> \<not> takesEarlyReturn a b"
  shows "AddWithMode a b ModeIEEEArithmetic r = AddWithMode b a ModeIEEEArithmetic r"
proof (cases "IsZero a \<or> IsZero b")
  case True
  have same: "IsZero a \<Longrightarrow> IsZero b \<Longrightarrow> a = b"
    using zeros unfolding zero_patterns by (auto simp add: Signbit_def)
  from True same show ?thesis by (auto simp add: AddWithMode_def)
next
  case nz: False
  show ?thesis
  proof (cases "IsInf a 0 \<or> IsInf b 0")
    case True
    with nz na nb show ?thesis
      unfolding AddWithMode_def pos_inf_pattern neg_inf_pattern inf_patterns by auto
  next
    case False
    with nz far have "\<not> takesEarlyReturn a b" by simp
    then have "addIEEE754 a b r = addIEEE754 b a r" by (rule addIEEE754_commute)
    with nz na nb False show ?thesis by (simp add: AddWithMode_def)
  qed
qed

text \<open>For two normal operands the early return is taken exactly when the exponent fields
  are 24 or more apart.\<close>

lemma normalizeOperand_normal:
  "e \<noteq> 0 \<Longrightarrow> normalizeOperand e m = Inr (e, m OR push_bit 10 1)"
  by (simp add: normalizeOperand_def)

lemma exponentsFarApart_normal:
  assumes "eA \<noteq> 0" and "eB \<noteq> 0"
  shows "exponentsFarApart eA mA eB mB \<longleftrightarrow> 24 \<le> uint eA - uint eB"
  using assms by (simp add: exponentsFarApart_def normalizeOperand_normal)

lemma takesEarlyReturn_normal:
  assumes a: "IsNormal a" and b: "IsNormal b"
  shows "takesEarlyReturn a b \<longleftrightarrow>
           24 \<le> \<bar>uint (drop_bit 10 (a AND ExponentMask))
                  - uint (drop_bit 10 (b AND ExponentMask))\<bar>"
proof -
  define eA where "eA = drop_bit 10 (a AND ExponentMask)"
  define eB where "eB = drop_bit 10 (b AND ExponentMask)"
  from a b have nz: "eA \<noteq> 0" "eB \<noteq> 0"
    by (simp_all add: IsNormal_def Let_def eA_def eB_def)
  have lt: "eA < eB \<longleftrightarrow> uint eA < uint eB" by (simp add: word_less_def)
  show ?thesis
    unfolding takesEarlyReturn_def extractComponents_def prod.case
      eA_def [symmetric] eB_def [symmetric] exponentsFarApart_normal [OF nz]
      exponentsFarApart_normal [OF nz(2) nz(1)] lt
    by auto
qed

text \<open>The early return hands back the first argument, also when it is the smaller operand:
  \<open>2^-14 + 32768\<close> is \<open>2^-14\<close>, and \<open>32768 + 2^-14\<close> is 32768.\<close>

lemma early_return_gives_first_argument:
  "takesEarlyReturn 0x0400 0x7800
   \<and> Add initial_globals 0x0400 0x7800 = Inr 0x0400
   \<and> Add initial_globals 0x7800 0x0400 = Inr 0x7800"
  by (simp add: Add_def initial_globals_def dropError_def AddWithMode_def addIEEE754_def
      addOrdered_def takesEarlyReturn_def exponentsFarApart_def normalizeOperand_def half_eval)

text \<open>
  The preparation of an operand is the only step of \<^const>\<open>addIEEE754\<close> that can panic: once
  both operands are prepared, the addition returns a value.
\<close>

lemma addOrdered_returns:
  assumes "normalizeOperand eA mA = Inr pa" and "normalizeOperand eB mB = Inr pb"
  shows "\<exists>v. addOrdered a sA eA mA sB eB mB = Inr v"
proof -
  obtain xa ya where pa: "pa = (xa, ya)" by (cases pa)
  obtain xb yb where pb: "pb = (xb, yb)" by (cases pb)
  show ?thesis
    unfolding addOrdered_def assms pa pb sum.case prod.case Let_def
    by (simp only: if_distrib [of "\<lambda>r. \<exists>v. r = Inr v"] sum.inject simp_thms if_cancel)
qed

lemma normalizeOperand_cases:
  "normalizeOperand e m = Inl RuntimePanic \<or> (\<exists>p. normalizeOperand e m = Inr p)"
  by (simp add: normalizeOperand_def Let_def)

lemma addIEEE754_returns:
  assumes pa: "\<not> preparationPanics a" and pb: "\<not> preparationPanics b"
  shows "\<exists>v. addIEEE754 a b r = Inr v"
proof -
  obtain sA eA mA where ca: "extractComponents a = (sA, eA, mA)"
    by (cases "extractComponents a")
  obtain sB eB mB where cb: "extractComponents b = (sB, eB, mB)"
    by (cases "extractComponents b")
  from pa ca obtain qa where qa: "normalizeOperand eA mA = Inr qa"
    using normalizeOperand_cases [of eA mA] by (auto simp add: preparationPanics_def)
  from pb cb obtain qb where qb: "normalizeOperand eB mB = Inr qb"
    using normalizeOperand_cases [of eB mB] by (auto simp add: preparationPanics_def)
  show ?thesis
  proof (cases "eA < eB \<or> (eA = eB \<and> mA < mB)")
    case True
    show ?thesis
      unfolding addIEEE754_def ca cb prod.case if_P [OF True]
      by (rule addOrdered_returns [OF qb qa])
  next
    case False
    show ?thesis
      unfolding addIEEE754_def ca cb prod.case if_not_P [OF False]
      by (rule addOrdered_returns [OF qa qb])
  qed
qed

lemma AddWithMode_IEEE_returns:
  assumes na: "\<not> IsNaN a" and nb: "\<not> IsNaN b"
    and calm: "IsZero a \<or> IsZero b \<or> IsInf a 0 \<or> IsInf b 0
               \<or> (\<not> preparationPanics a \<and> \<not> preparationPanics b)"
  shows "\<exists>v. AddWithMode a b ModeIEEEArithmetic r = Inr v"
proof (cases "IsZero a \<or> IsZero b \<or> IsInf a 0 \<or> IsInf b 0")
  case True
  with na nb show ?thesis by (auto simp add: AddWithMode_def)
next
  case False
  with calm have "\<exists>v. addIEEE754 a b r = Inr v" by (simp add: addIEEE754_returns)
  with False na nb show ?thesis by (simp add: AddWithMode_def)
qed

text \<open>
  The operands whose preparation panics are the subnormals with a mantissa of 0x020 or more:
  for them \<^const>\<open>leadingZeros10\<close> returns -2 or less, and the shift count
  \<^verbatim>\<open>leadingZeros10(mant) + 1\<close> is negative.
\<close>

lemma len_upto_gt: "k < len_upto n x \<longleftrightarrow> k < n \<and> 2 ^ k \<le> x"
proof (induction n)
  case 0
  show ?case by simp
next
  case (Suc n)
  show ?case
  proof (cases "2 ^ n \<le> x")
    case True
    have "(2::nat) ^ k \<le> x" if "k \<le> n"
    proof -
      from that have "(2::nat) ^ k \<le> 2 ^ n" by (rule power_increasing) simp
      with True show ?thesis by (rule order_trans [rotated])
    qed
    then show ?thesis using True by (auto simp add: less_Suc_eq_le)
  next
    case False
    then have "k = n \<Longrightarrow> \<not> 2 ^ k \<le> x" by simp
    then show ?thesis using False Suc by (auto simp add: less_Suc_eq)
  qed
qed

lemma leadingZeros10_negative_shift:
  assumes "m \<le> 0x3FF"
  shows "leadingZeros10 m + 1 < 0 \<longleftrightarrow> 0x20 \<le> m"
proof (cases "m = 0")
  case True
  then show ?thesis by (simp add: leadingZeros10_def)
next
  case False
  from assms have um: "unat m \<le> 1023" by (simp add: word_le_nat_alt)
  have "unat (push_bit 6 m) = unat (m * 64)" by (simp add: push_bit_eq_mult)
  also have "\<dots> = (unat m * 64) mod 2 ^ 16" by (simp add: unat_word_ariths)
  also have "\<dots> = 64 * unat m" using um by simp
  finally have sh: "unat (push_bit 6 m) = 64 * unat m" .
  have "leadingZeros10 m + 1 < 0 \<longleftrightarrow> 11 < len_upto 16 (64 * unat m)"
    using False by (simp add: leadingZeros10_def LeadingZeros16_def sh)
  also have "\<dots> \<longleftrightarrow> 32 \<le> unat m"
    unfolding len_upto_gt by simp
  also have "\<dots> \<longleftrightarrow> 0x20 \<le> m"
    by (simp add: word_le_nat_alt)
  finally show ?thesis .
qed

lemma preparationPanics_iff:
  "preparationPanics v \<longleftrightarrow> IsSubnormal v \<and> 0x20 \<le> (v AND MantissaMask)"
proof -
  have le: "v AND MantissaMask \<le> 0x3FF" by (rule word_and_le1)
  show ?thesis
    unfolding preparationPanics_def extractComponents_def prod.case normalizeOperand_def
      IsSubnormal_def Let_def
    using leadingZeros10_negative_shift [OF le] by auto
qed

text \<open>With such an operand the addition panics in both orders: \<open>2^-19 + 1\<close> returns nothing.\<close>

lemma panic_both_orders:
  "preparationPanics 0x0020
   \<and> Add initial_globals 0x0020 0x3C00 = Inl RuntimePanic
   \<and> Add initial_globals 0x3C00 0x0020 = Inl RuntimePanic"
  by (simp add: Add_def initial_globals_def dropError_def AddWithMode_def addIEEE754_def
      addOrdered_def preparationPanics_def normalizeOperand_def half_eval)

section \<open>Widening and the round trip\<close>

text \<open>
  Claim C2. Widening a subnormal half should give exactly \<open>sign * (m / 1024) * 2^-14\<close>,
  with the binary32 exponent field \<open>127 - 15 + 1 - shift\<close>. The code does not: for the
  smallest subnormal 0x0001, \<^const>\<open>leadingZeros10\<close> returns 3 where the mantissa has 9 leading
  zeros, the shift is 4, and the exponent field is \<open>127 - 15 + 4 = 116\<close>, so the result is
  \<open>65 / 2^17\<close> where the pattern denotes \<open>2^-24\<close>. For the largest subnormal 0x03FF,
  \<^const>\<open>leadingZeros10\<close> returns -6 and \<^const>\<open>ToFloat32\<close> returns +0 where the pattern denotes
  \<open>1023 / 2^24\<close>.
\<close>

theorem ToFloat32_subnormal_not_exact:
  "IsSubnormal 0x0001 \<and> leadingZeros10 0x0001 = 3
   \<and> ToFloat32 0x0001 = 0x3A020000 \<and> f32_exponent (ToFloat32 0x0001) = 116
   \<and> f32_value (ToFloat32 0x0001) = 65 / 2 ^ 17 \<and> half_value_spec 0x0001 = 1 / 2 ^ 24
   \<and> IsSubnormal 0x03FF \<and> leadingZeros10 0x03FF = - 6 \<and> ToFloat32 0x03FF = 0
   \<and> f32_value (ToFloat32 0x03FF) = 0 \<and> half_value_spec 0x03FF = 1023 / 2 ^ 24"
  unfolding ToFloat32_0001 ToFloat32_03FF
  by (simp add: half_eval f32_eval f32_value_def half_value_spec_def pow2_def)

text \<open>
  Claim C1. Narrowing the widened value under IEEE mode with nearest-even rounding should
  give every non-NaN half back. The code does not for the subnormal 0x0001: it is widened
  to 0x3A020000, which narrows to the normal value 0x1010.
\<close>

theorem roundtrip_changes_smallest_subnormal:
  "\<not> IsNaN 0x0001 \<and> IsSubnormal 0x0001
   \<and> ToFloat16WithMode (ToFloat32 0x0001) ModeIEEE RoundNearestEven = Inr 0x1010
   \<and> ToFloat16WithMode (ToFloat32 0x0001) ModeIEEE RoundNearestEven \<noteq> Inr 0x0001"
  unfolding ToFloat32_0001
  by (simp add: ToFloat16WithMode_def shouldRound_def half_eval f32_eval)

text \<open>
  The subnormals are the only values that the round trip changes: every zero, infinity and
  normal value comes back bit for bit (and \<open>roundtrip_subnormal_fails\<close> shows that no
  subnormal does).
\<close>

lemma roundtrip_non_subnormal:
  assumes nn: "\<not> IsNaN v" and ns: "\<not> IsSubnormal v"
  shows "ToFloat16WithMode (ToFloat32 v) ModeIEEE RoundNearestEven = Inr v"
proof -
  from nn ns have "IsZero v \<or> IsInf v 0 \<or> IsNormal v"
    unfolding predicate_bits by blast
  then show ?thesis
    using roundtrip_zero_inf roundtrip_normal [of v]
    unfolding zero_patterns inf_patterns by blast
qed

section \<open>Rounding toward positive infinity\<close>

text \<open>
  Claim C6. Rounding toward positive infinity should truncate the magnitude of a negative
  operand. The code does not: \<open>x = -(1 + 2^-23)\<close> (binary32 0xBF800001) lies in the normal
  range of the half format and is not representable in it; \<^const>\<open>ToFloat16WithMode\<close> with
  \<^const>\<open>RoundTowardPositive\<close> returns 0xBC01, that is \<open>-(1 + 2^-10)\<close>, which is below \<open>x\<close>;
  the truncated magnitude is 0xBC00, that is -1.
\<close>

theorem RoundTowardPositive_rounds_negative_away:
  "ToFloat16WithMode 0xBF800001 ModeIEEE RoundTowardPositive = Inr 0xBC01
   \<and> f32_value 0xBF800001 = - (1 + 1 / 2 ^ 23)
   \<and> half_value_spec 0xBC01 = - (1 + 1 / 2 ^ 10)
   \<and> half_value_spec 0xBC00 = - 1
   \<and> half_value_spec 0xBC01 < f32_value 0xBF800001"
proof -
  have narrow: "ToFloat16WithMode 0xBF800001 ModeIEEE RoundTowardPositive = Inr 0xBC01"
    by (simp add: ToFloat16WithMode_def shouldRound_def half_eval f32_eval)
  have x: "f32_value 0xBF800001 = - (1 + 1 / 2 ^ 23)"
    by (simp add: f32_value_def f32_eval pow2_def)
  have up: "half_value_spec 0xBC01 = - (1 + 1 / 2 ^ 10)"
    by (simp add: half_value_spec_def half_eval pow2_def)
  have trunc: "half_value_spec 0xBC00 = - 1"
    by (simp add: half_value_spec_def half_eval pow2_def)
  have less: "half_value_spec 0xBC01 < f32_value 0xBF800001"
    unfolding x up by simp
  from narrow x up trunc less show ?thesis by simp
qed

section \<open>Division\<close>

text \<open>
  Claim C3. Division under IEEE arithmetic mode should never fail and should give the
  signed infinity when the quotient of two finite nonzero values is too large. The code
  does not: \<^const>\<open>divIEEE754\<close> narrows with \<^const>\<open>ModeExact\<close>, so 65504 divided by \<open>2^-14\<close>
  (0x7BFF by 0x0400) returns an overflow error from \<^const>\<open>DivWithMode\<close> and +0 from
  \<^const>\<open>Div\<close>. The Fast path of the same division and the IEEE multiplication
  \<open>65504 * 65504\<close>, which narrow with \<^const>\<open>ModeIEEE\<close>, return positive infinity.
\<close>

theorem DivWithMode_IEEE_overflow_is_error:
  "IsFinite 0x7BFF \<and> \<not> IsZero 0x7BFF \<and> IsFinite 0x0400 \<and> \<not> IsZero 0x0400
   \<and> DivWithMode 0x7BFF 0x0400 ModeIEEEArithmetic RoundNearestEven
       = Inl (Float16Error ''convert'' ''overflow: value too large for float16'' ErrOverflow)
   \<and> Div initial_globals 0x7BFF 0x0400 = Inr 0
   \<and> DivWithMode 0x7BFF 0x0400 ModeFastArithmetic RoundNearestEven = Inr PositiveInfinity
   \<and> MulWithMode 0x7BFF 0x7BFF ModeIEEEArithmetic RoundNearestEven = Inr PositiveInfinity"
  by (simp add: Div_def initial_globals_def dropError_def DivWithMode_def divIEEE754_def
      MulWithMode_def mulIEEE754_def
      ToFloat32_7BFF ToFloat32_0400 f32_div_max_by_min f32_mul_max_by_max
      ToFloat16WithMode_def half_eval f32_eval)

text \<open>
  Claim C7. When the divisor is a zero: a finite nonzero dividend gives, in IEEE and Fast
  mode (through \<^const>\<open>DivWithMode\<close> and through \<^const>\<open>Div\<close>), the infinity whose sign is the
  exclusive or of the operand signs, and in Exact mode a DivisionByZero error; a zero
  dividend gives the quiet NaN in IEEE and Fast mode and an InvalidOperation error in
  Exact mode.
\<close>

theorem DivWithMode_zero_divisor:
  assumes fin: "IsFinite a" and nz: "\<not> IsZero a" and zb: "IsZero b" and zz: "IsZero z"
    and m: "mode = ModeIEEEArithmetic \<or> mode = ModeFastArithmetic"
    and g: "DefaultArithmeticMode g = ModeIEEEArithmetic
            \<or> DefaultArithmeticMode g = ModeFastArithmetic"
  shows "DivWithMode a b mode r
           = Inr (if Signbit a \<noteq> Signbit b then NegativeInfinity else PositiveInfinity)
       \<and> Div g a b = Inr (if Signbit a \<noteq> Signbit b then NegativeInfinity else PositiveInfinity)
       \<and> DivWithMode a b ModeExactArithmetic r
           = Inl (Float16Error ''div'' ''division by zero'' ErrDivisionByZero)
       \<and> DivWithMode z b mode r = Inr QuietNaN
       \<and> Div g z b = Inr QuietNaN
       \<and> DivWithMode z b ModeExactArithmetic r
           = Inl (Float16Error ''div'' ''zero divided by zero is undefined'' ErrInvalidOperation)"
proof -
  from m have mx: "mode \<noteq> ModeExactArithmetic" by auto
  from g have gx: "DefaultArithmeticMode g \<noteq> ModeExactArithmetic" by auto
  have inf_mode: "DivWithMode a b mode r
      = Inr (if Signbit a \<noteq> Signbit b then NegativeInfinity else PositiveInfinity)"
    by (simp add: DivWithMode_def nz zb mx)
  have inf_default: "Div g a b
      = Inr (if Signbit a \<noteq> Signbit b then NegativeInfinity else PositiveInfinity)"
    by (simp add: Div_def DivWithMode_def dropError_def nz zb gx)
  have err_exact: "DivWithMode a b ModeExactArithmetic r
      = Inl (Float16Error ''div'' ''division by zero'' ErrDivisionByZero)"
    by (simp add: DivWithMode_def nz zb)
  have nan_mode: "DivWithMode z b mode r = Inr QuietNaN"
    by (simp add: DivWithMode_def zz zb mx)
  have nan_default: "Div g z b = Inr QuietNaN"
    by (simp add: Div_def DivWithMode_def dropError_def zz zb gx)
  have invalid_exact: "DivWithMode z b ModeExactArithmetic r
      = Inl (Float16Error ''div'' ''zero divided by zero is undefined'' ErrInvalidOperation)"
    by (simp add: DivWithMode_def zz zb)
  from inf_mode inf_default err_exact nan_mode nan_default invalid_exact
  show ?thesis by simp
qed

theorem DivWithMode_zero_divisor_witness:
  "IsFinite 0x3C00 \<and> \<not> IsZero 0x3C00 \<and> IsZero 0x8000 \<and> IsZero 0x0000
   \<and> DivWithMode 0x3C00 0x8000 ModeIEEEArithmetic RoundNearestEven = Inr NegativeInfinity
   \<and> Div initial_globals 0x3C00 0x8000 = Inr NegativeInfinity
   \<and> DivWithMode 0x3C00 0x8000 ModeExactArithmetic RoundNearestEven
       = Inl (Float16Error ''div'' ''division by zero'' ErrDivisionByZero)
   \<and> DivWithMode 0x0000 0x8000 ModeIEEEArithmetic RoundNearestEven = Inr QuietNaN
   \<and> Div initial_globals 0x0000 0x8000 = Inr QuietNaN
   \<and> DivWithMode 0x0000 0x8000 ModeExactArithmetic RoundNearestEven
       = Inl (Float16Error ''div'' ''zero divided by zero is undefined'' ErrInvalidOperation)"
proof -
  have fin: "IsFinite 0x3C00" by (simp add: half_eval)
  have nz: "\<not> IsZero 0x3C00" by (simp add: half_eval)
  have zb: "IsZero 0x8000" by (simp add: half_eval)
  have zz: "IsZero 0x0000" by (simp add: half_eval)
  have m: "ModeIEEEArithmetic = ModeIEEEArithmetic \<or> ModeIEEEArithmetic = ModeFastArithmetic"
    by simp
  have g: "DefaultArithmeticMode initial_globals = ModeIEEEArithmetic
           \<or> DefaultArithmeticMode initial_globals = ModeFastArithmetic"
    by (simp add: initial_globals_def)
  show ?thesis
    using fin nz zb zz DivWithMode_zero_divisor [OF fin nz zb zz m g, of RoundNearestEven]
    by (simp add: Signbit_def)
qed

section \<open>Multiplication\<close>

text \<open>
  Claim C9. In \<^const>\<open>MulWithMode\<close> the zero shortcut comes before the NaN check: for every
  NaN \<open>n\<close>, every zero \<open>z\<close> (0x0000 or 0x8000), every arithmetic mode and every rounding mode,
  both \<open>n * z\<close> and \<open>z * n\<close> return, with no error, the zero whose sign bit is the exclusive
  or of the sign bits of the operands.
\<close>

theorem MulWithMode_NaN_times_zero:
  assumes n: "IsNaN n" and z: "z = 0x0000 \<or> z = 0x8000"
  shows "MulWithMode n z mode r
           = Inr (if Signbit n \<noteq> Signbit z then NegativeZero else PositiveZero)
       \<and> MulWithMode z n mode r
           = Inr (if Signbit z \<noteq> Signbit n then NegativeZero else PositiveZero)"
proof -
  from z have zz: "IsZero z" by (auto simp add: IsZero_def)
  have nz: "\<not> IsZero n" and ni: "\<not> IsInf n 0"
    using n by (simp_all add: NaN_not_Zero NaN_not_Inf)
  have zi: "\<not> IsInf z 0" using zz by (rule Zero_not_Inf)
  have left: "MulWithMode n z mode r
      = Inr (if Signbit n \<noteq> Signbit z then NegativeZero else PositiveZero)"
    by (simp add: MulWithMode_def Let_def zz nz ni zi)
  have right: "MulWithMode z n mode r
      = Inr (if Signbit z \<noteq> Signbit n then NegativeZero else PositiveZero)"
    by (simp add: MulWithMode_def Let_def zz nz ni zi)
  from left right show ?thesis by simp
qed

theorem MulWithMode_NaN_times_zero_witness:
  "IsNaN 0x7E00
   \<and> MulWithMode 0x7E00 0x8000 ModeExactArithmetic RoundNearestEven = Inr NegativeZero
   \<and> MulWithMode 0x8000 0x7E00 ModeExactArithmetic RoundNearestEven = Inr NegativeZero"
proof -
  have n: "IsNaN 0x7E00" by (simp add: half_eval)
  have z: "(0x8000 :: Float16) = 0x0000 \<or> (0x8000 :: Float16) = 0x8000" by simp
  show ?thesis
    using n MulWithMode_NaN_times_zero [OF n z, of ModeExactArithmetic RoundNearestEven]
    by (simp add: Signbit_def)
qed

section \<open>Addition\<close>

text \<open>
  Claim C4 as stated fails: in Exact mode, adding a zero and the quiet NaN 0x7E00 returns the
  NaN with no error, in either order, because the zero shortcut comes before the NaN check.
\<close>

theorem AddWithMode_exact_zero_plus_NaN_no_error:
  "IsNaN 0x7E00
   \<and> AddWithMode 0x0000 0x7E00 ModeExactArithmetic RoundNearestEven = Inr 0x7E00
   \<and> AddWithMode 0x7E00 0x8000 ModeExactArithmetic RoundNearestEven = Inr 0x7E00"
  by (simp add: AddWithMode_def half_eval)

text \<open>
  Claim C4, amended. When at least one operand is a NaN: if one operand is a zero,
  \<^const>\<open>AddWithMode\<close> returns the other operand, which is the NaN, with no error in every
  mode; otherwise it returns a NaN-operand error in Exact mode and the quiet NaN 0x7E00 in
  IEEE and Fast mode. So every value it returns is a NaN, and an error is returned only in
  Exact mode and is the NaN-operand error.
\<close>

theorem AddWithMode_NaN_operand:
  assumes nan: "IsNaN a \<or> IsNaN b"
  shows "AddWithMode a b mode r =
           (if IsZero a then Inr b
            else if IsZero b then Inr a
            else if mode = ModeExactArithmetic
                 then Inl (Float16Error ''add'' ''NaN operand in exact mode'' ErrNaN)
            else Inr QuietNaN)
       \<and> (case AddWithMode a b mode r of
            Inr v \<Rightarrow> IsNaN v
          | Inl e \<Rightarrow> mode = ModeExactArithmetic \<and> error_code e = Some ErrNaN)"
proof -
  have eq: "AddWithMode a b mode r =
           (if IsZero a then Inr b
            else if IsZero b then Inr a
            else if mode = ModeExactArithmetic
                 then Inl (Float16Error ''add'' ''NaN operand in exact mode'' ErrNaN)
            else Inr QuietNaN)"
    using nan by (simp add: AddWithMode_def)
  have q: "IsNaN QuietNaN" by (simp add: IsNaN_def)
  have za: "IsZero a \<Longrightarrow> IsNaN b" using nan Zero_not_NaN by blast
  have zb: "IsZero b \<Longrightarrow> IsNaN a" using nan Zero_not_NaN by blast
  have res: "(case AddWithMode a b mode r of
            Inr v \<Rightarrow> IsNaN v
          | Inl e \<Rightarrow> mode = ModeExactArithmetic \<and> error_code e = Some ErrNaN)"
    unfolding eq using q za zb by simp
  from eq res show ?thesis by simp
qed

theorem AddWithMode_NaN_operand_witness:
  "(IsNaN 0x7E00 \<or> IsNaN 0x3C00)
   \<and> AddWithMode 0x7E00 0x3C00 ModeExactArithmetic RoundNearestEven
       = Inl (Float16Error ''add'' ''NaN operand in exact mode'' ErrNaN)"
proof -
  have nan: "IsNaN 0x7E00 \<or> IsNaN 0x3C00" by (simp add: half_eval)
  show ?thesis
    using nan AddWithMode_NaN_operand [OF nan, of ModeExactArithmetic RoundNearestEven]
    by (simp add: half_eval)
qed

text \<open>
  Claim C5 as stated fails on the signed zeros: the zero shortcut of \<^const>\<open>AddWithMode\<close>
  returns the other operand, so \<open>+0 + -0\<close> is -0 and \<open>-0 + +0\<close> is +0.
\<close>

theorem Add_signed_zeros_not_commutative:
  "\<not> IsNaN 0x0000 \<and> \<not> IsNaN 0x8000
   \<and> Add initial_globals 0x0000 0x8000 = Inr 0x8000
   \<and> Add initial_globals 0x8000 0x0000 = Inr 0x0000
   \<and> Add initial_globals 0x0000 0x8000 \<noteq> Add initial_globals 0x8000 0x0000"
  by (simp add: Add_def initial_globals_def dropError_def AddWithMode_def half_eval)

text \<open>
  Claim C5, amended. Under IEEE mode, \<open>Add a b\<close> and \<open>Add b a\<close> both return, and return the
  same value, for every pair of non-NaN values that are not two zeros of opposite sign,
  provided that, when the addition reaches \<^const>\<open>addIEEE754\<close> (both operands finite and not
  zero), neither operand makes the preparation panic, which leaves out the subnormals with a
  mantissa of 0x020 or more (\<^const>\<open>preparationPanics\<close>, a negative shift count), and
  \<^const>\<open>addIEEE754\<close> does not take its early return for operands whose exponents are 24 or
  more apart (\<^const>\<open>takesEarlyReturn\<close>).
\<close>

theorem Add_commutative_IEEE:
  assumes mode: "DefaultArithmeticMode g = ModeIEEEArithmetic"
    and na: "\<not> IsNaN a" and nb: "\<not> IsNaN b"
    and zeros: "\<not> (IsZero a \<and> IsZero b \<and> Signbit a \<noteq> Signbit b)"
    and generic: "IsZero a \<or> IsZero b \<or> IsInf a 0 \<or> IsInf b 0
                  \<or> (\<not> takesEarlyReturn a b
                      \<and> \<not> (IsSubnormal a \<and> 0x20 \<le> (a AND MantissaMask))
                      \<and> \<not> (IsSubnormal b \<and> 0x20 \<le> (b AND MantissaMask)))"
  shows "\<exists>v. Add g a b = Inr v \<and> Add g b a = Inr v"
proof -
  from generic have far:
    "IsZero a \<or> IsZero b \<or> IsInf a 0 \<or> IsInf b 0 \<or> \<not> takesEarlyReturn a b"
    by blast
  from generic have calm:
    "IsZero a \<or> IsZero b \<or> IsInf a 0 \<or> IsInf b 0
     \<or> (\<not> preparationPanics a \<and> \<not> preparationPanics b)"
    unfolding preparationPanics_iff by blast
  obtain v where v: "AddWithMode a b ModeIEEEArithmetic (DefaultRounding g) = Inr v"
    using AddWithMode_IEEE_returns [OF na nb calm] by blast
  have "AddWithMode b a ModeIEEEArithmetic (DefaultRounding g) = Inr v"
    using AddWithMode_commute [OF na nb zeros far, of "DefaultRounding g"] v by simp
  with v show ?thesis by (simp add: Add_def mode dropError_def)
qed

theorem Add_commutative_IEEE_witness:
  "DefaultArithmeticMode initial_globals = ModeIEEEArithmetic
   \<and> \<not> IsNaN 0x3C00 \<and> \<not> IsNaN 0x4000
   \<and> \<not> (IsZero 0x3C00 \<and> IsZero 0x4000 \<and> Signbit 0x3C00 \<noteq> Signbit 0x4000)
   \<and> \<not> IsZero 0x3C00 \<and> \<not> IsZero 0x4000 \<and> \<not> IsInf 0x3C00 0 \<and> \<not> IsInf 0x4000 0
   \<and> \<not> takesEarlyReturn 0x3C00 0x4000
   \<and> \<not> IsSubnormal 0x3C00 \<and> \<not> IsSubnormal 0x4000
   \<and> Add initial_globals 0x3C00 0x4000 = Inr 0x4200
   \<and> Add initial_globals 0x4000 0x3C00 = Inr 0x4200"
proof -
  have mode: "DefaultArithmeticMode initial_globals = ModeIEEEArithmetic"
    by (simp add: initial_globals_def)
  have na: "\<not> IsNaN 0x3C00" and nb: "\<not> IsNaN 0x4000" by (simp_all add: half_eval)
  have zeros: "\<not> (IsZero 0x3C00 \<and> IsZero 0x4000 \<and> Signbit 0x3C00 \<noteq> Signbit 0x4000)"
    by (simp add: half_eval)
  have reaches: "\<not> IsZero 0x3C00" "\<not> IsZero 0x4000" "\<not> IsInf 0x3C00 0" "\<not> IsInf 0x4000 0"
    by (simp_all add: half_eval)
  have near: "\<not> takesEarlyReturn 0x3C00 0x4000"
    by (simp add: takesEarlyReturn_def exponentsFarApart_def normalizeOperand_def half_eval)
  have calm: "\<not> IsSubnormal 0x3C00" "\<not> IsSubnormal 0x4000"
    by (simp_all add: half_eval)
  from near calm have generic:
    "IsZero 0x3C00 \<or> IsZero 0x4000 \<or> IsInf 0x3C00 0 \<or> IsInf 0x4000 0
     \<or> (\<not> takesEarlyReturn 0x3C00 0x4000
         \<and> \<not> (IsSubnormal 0x3C00 \<and> 0x20 \<le> (0x3C00 AND MantissaMask))
         \<and> \<not> (IsSubnormal 0x4000 \<and> 0x20 \<le> (0x4000 AND MantissaMask)))"
    by simp
  have sum: "Add initial_globals 0x3C00 0x4000 = Inr 0x4200"
    by (simp add: Add_def initial_globals_def dropError_def AddWithMode_def addIEEE754_def
        addOrdered_def normalizeOperand_def half_eval)
  show ?thesis
    using mode na nb zeros reaches near calm sum
      Add_commutative_IEEE [OF mode na nb zeros generic]
    by simp
qed

end
